theory Spec2Isabelle
  imports Complex_Main
begin

section \<open>Calendar dates\<close>

text \<open>
  A JavaScript \<open>Date\<close> is the number of milliseconds since 1970-01-01T00:00:00Z. The
  service runs in the \<open>node:18-slim\<close> image with no time zone configured, so local time is
  UTC: \<open>setHours\<close>, \<open>getDay\<close>, \<open>getMonth\<close> and \<open>setMonth\<close> below are the UTC readings
  of the ECMAScript operations. Only valid dates are modelled (the request validation
  accepts ISO 8601 dates only).
\<close>

type_synonym Date = int

definition msPerDay :: int where
  "msPerDay = 86400000"

definition msPerHour :: int where
  "msPerHour = 3600000"

definition Day :: "Date \<Rightarrow> int" where
  "Day t = t div msPerDay"

definition TimeWithinDay :: "Date \<Rightarrow> int" where
  "TimeWithinDay t = t mod msPerDay"

text \<open>Day number of a proleptic Gregorian date (month 1..12), and its inverse.\<close>

definition days_from_civil :: "int \<Rightarrow> int \<Rightarrow> int \<Rightarrow> int" where
  "days_from_civil y m d =
     (let y' = (if m \<le> 2 then y - 1 else y);
          era = y' div 400;
          yoe = y' - era * 400;
          doy = (153 * (if m > 2 then m - 3 else m + 9) + 2) div 5 + d - 1;
          doe = yoe * 365 + yoe div 4 - yoe div 100 + doy
      in era * 146097 + doe - 719468)"

definition civil_from_days :: "int \<Rightarrow> int \<times> int \<times> int" where
  "civil_from_days z =
     (let z' = z + 719468;
          era = z' div 146097;
          doe = z' - era * 146097;
          yoe = (doe - doe div 1460 + doe div 36524 - doe div 146096) div 365;
          doy = doe - (365 * yoe + yoe div 4 - yoe div 100);
          mp = (5 * doy + 2) div 153;
          d = doy - (153 * mp + 2) div 5 + 1;
          m = (if mp < 10 then mp + 3 else mp - 9)
      in (yoe + era * 400 + (if m \<le> 2 then 1 else 0), m, d))"

text \<open>\<open>date.setHours(h, m, s, ms)\<close>: the same day, the given time of day.\<close>

definition setHours :: "int \<Rightarrow> int \<Rightarrow> int \<Rightarrow> int \<Rightarrow> Date \<Rightarrow> Date" where
  "setHours h m s ms t = Day t * msPerDay + h * msPerHour + m * 60000 + s * 1000 + ms"

text \<open>\<open>date.getDay()\<close>: 0 is Sunday, 6 is Saturday; 1970-01-01 was a Thursday.\<close>

definition getDay :: "Date \<Rightarrow> int" where
  "getDay t = (Day t + 4) mod 7"

text \<open>
  \<open>addMonths\<close> of \<open>dateUtils.ts\<close>: \<open>result.setMonth(result.getMonth() + months)\<close>. The month
  index is carried into the year, the day of the month is kept and overflows into the next
  month when the target month is shorter (ECMAScript \<open>MakeDay\<close>), the time of day is kept.
\<close>

definition addMonths :: "Date \<Rightarrow> int \<Rightarrow> Date" where
  "addMonths date months =
     (case civil_from_days (Day date) of (y, m, d) \<Rightarrow>
        let mi = m - 1 + months;
            y2 = y + mi div 12;
            m2 = mi mod 12 + 1
        in (days_from_civil y2 m2 1 + d - 1) * msPerDay + TimeWithinDay date)"

text \<open>The \<open>YYYY-MM-DD\<close> part of \<open>date.toISOString()\<close> (and of Mongo's \<open>%Y-%m-%d\<close>).\<close>

definition digitChar :: "int \<Rightarrow> char" where
  "digitChar n = ''0123456789'' ! nat (n mod 10)"

fun padDigits :: "nat \<Rightarrow> int \<Rightarrow> string" where
  "padDigits 0 n = []"
| "padDigits (Suc w) n = padDigits w (n div 10) @ [digitChar n]"

definition isoDateString :: "Date \<Rightarrow> string" where
  "isoDateString t =
     (case civil_from_days (Day t) of (y, m, d) \<Rightarrow>
        (if 0 \<le> y \<and> y \<le> 9999 then padDigits 4 y
         else (if y < 0 then ''-'' else ''+'') @ padDigits 6 \<bar>y\<bar>)
        @ ''-'' @ padDigits 2 m @ ''-'' @ padDigits 2 d)"

section \<open>Calendar classifier and pricing\<close>

definition danishHolidays2025 :: "string list" where
  "danishHolidays2025 =
     [''2025-01-01'', ''2025-04-17'', ''2025-04-18'', ''2025-04-21'', ''2025-05-16'',
      ''2025-05-29'', ''2025-06-05'', ''2025-06-09'', ''2025-12-24'', ''2025-12-25'',
      ''2025-12-26'', ''2025-12-31'']"

datatype DateType = weekday | weekend | holiday

definition getDateType :: "Date \<Rightarrow> DateType" where
  "getDateType date =
     (let dateString = isoDateString date in
      if dateString \<in> set danishHolidays2025 then holiday
      else let dayOfWeek = getDay date in
        if dayOfWeek = 0 \<or> dayOfWeek = 6 then weekend else weekday)"

datatype ServiceType = basic | deluxe

record PricingConfig =
  cfg_basic :: int
  cfg_deluxe :: int
  weekendMultiplier :: rat
  holidayMultiplier :: rat

definition PRICING_CONFIG :: PricingConfig where
  "PRICING_CONFIG =
     \<lparr>cfg_basic = 1000, cfg_deluxe = 1400, weekendMultiplier = 3 / 2, holidayMultiplier = 2\<rparr>"

text \<open>\<open>Math.round\<close>: the nearest integer, a half rounded up.\<close>

definition Math_round :: "rat \<Rightarrow> int" where
  "Math_round x = \<lfloor>x + 1 / 2\<rfloor>"

definition basePriceOf :: "ServiceType \<Rightarrow> int" where
  "basePriceOf serviceType =
     (case serviceType of basic \<Rightarrow> cfg_basic PRICING_CONFIG | deluxe \<Rightarrow> cfg_deluxe PRICING_CONFIG)"

definition calculateAppointmentPrice :: "ServiceType \<Rightarrow> Date \<Rightarrow> int" where
  "calculateAppointmentPrice serviceType appointmentDate =
     (let basePrice = basePriceOf serviceType;
          dateType = getDateType appointmentDate
      in case dateType of
           weekend \<Rightarrow> Math_round (of_int basePrice * weekendMultiplier PRICING_CONFIG)
         | holiday \<Rightarrow> Math_round (of_int basePrice * holidayMultiplier PRICING_CONFIG)
         | weekday \<Rightarrow> basePrice)"

section \<open>Documents and collections\<close>

text \<open>
  The Mongoose models. A collection is the list of its documents in insertion order, and a
  document's \<open>_id\<close> is its position in that list: the operations modelled here never
  delete a document. Users and packs are looked up by id only, so they are maps. Numbers
  are integers: points and prices are validated as integers wherever they enter.
\<close>

datatype AppointmentStatus = pending | confirmed | in_progress | completed | cancelled

record Appointment =
  a_userId :: nat
  serviceType :: ServiceType
  appointmentDate :: Date
  timeSlot :: string
  startTime :: Date
  endTime :: Date
  location :: string
  status :: AppointmentStatus
  price :: int
  a_notes :: "string option"

record User =
  email :: string
  totalPoints :: int

record Pack =
  pointsIncluded :: int
  bonusPoints :: int

datatype PurchaseStatus = p_pending | p_processing | p_succeeded | p_failed | p_canceled

record Purchase =
  p_userId :: nat
  p_packId :: nat
  stripePaymentIntentId :: string
  p_status :: PurchaseStatus
  pointsAwarded :: int
  bonusPointsAwarded :: int

record Database =
  users :: "nat \<rightharpoonup> User"
  appointments :: "Appointment list"
  purchases :: "Purchase list"
  packs :: "nat \<rightharpoonup> Pack"

datatype DbError = ValidationError | DuplicateKey | WriteFailed

text \<open>The statuses of the queries' \<open>$in: ['pending', 'confirmed', 'in_progress']\<close>.\<close>

definition activeStatuses :: "AppointmentStatus list" where
  "activeStatuses = [pending, confirmed, in_progress]"

text \<open>
  The unique index of \<open>appointmentSchema\<close>: key \<open>{appointmentDate, timeSlot, status}\<close>,
  restricted by its partial filter to documents whose status is active. A write is
  refused when another document inside the filter has the same key.
\<close>

definition violatesSlotIndex :: "Appointment \<Rightarrow> Appointment list \<Rightarrow> bool" where
  "violatesSlotIndex doc others =
     (status doc \<in> set activeStatuses \<and>
      (\<exists>a \<in> set others. status a \<in> set activeStatuses \<and>
         appointmentDate a = appointmentDate doc \<and> timeSlot a = timeSlot doc \<and>
         status a = status doc))"

text \<open>\<open>new Appointment(...).save()\<close>: schema validation (\<open>price: min 0\<close>), then the index.\<close>

definition insertAppointment :: "Appointment \<Rightarrow> Appointment list \<Rightarrow> DbError + Appointment list" where
  "insertAppointment doc col =
     (if price doc < 0 then Inl ValidationError
      else if violatesSlotIndex doc col then Inl DuplicateKey
      else Inr (col @ [doc]))"

text \<open>\<open>appointment.save()\<close> of the document at position \<open>i\<close> after a change.\<close>

definition saveAppointment :: "nat \<Rightarrow> Appointment \<Rightarrow> Appointment list \<Rightarrow> DbError + Appointment list" where
  "saveAppointment i doc col =
     (if violatesSlotIndex doc (take i col @ drop (Suc i) col) then Inl DuplicateKey
      else Inr (col[i := doc]))"

text \<open>\<open>User.findByIdAndUpdate(id, {$inc: {totalPoints: n}})\<close>: no validators run; a missing
  user is no error.\<close>

definition incUserPoints :: "nat \<Rightarrow> int \<Rightarrow> Database \<Rightarrow> Database" where
  "incUserPoints userId n db =
     (case users db userId of
        None \<Rightarrow> db
      | Some u \<Rightarrow> db\<lparr>users := (users db)(userId \<mapsto> u\<lparr>totalPoints := totalPoints u + n\<rparr>)\<rparr>)"

section \<open>Slot allocator\<close>

definition getTimeSlots :: "string list" where
  "getTimeSlots = [''14:00-16:00'', ''16:00-18:00'', ''18:00-20:00'', ''20:00-22:00'']"

text \<open>\<open>Number\<close> on a string of decimal digits; anything else is \<open>NaN\<close> (\<open>None\<close>) here.\<close>

definition digitValue :: "char \<Rightarrow> nat option" where
  "digitValue c = (if c \<in> set ''0123456789'' then Some (of_char c - 48) else None)"

fun NumberOf :: "string \<Rightarrow> nat \<Rightarrow> nat option" where
  "NumberOf [] acc = Some acc"
| "NumberOf (c # cs) acc =
     (case digitValue c of None \<Rightarrow> None | Some v \<Rightarrow> NumberOf cs (10 * acc + v))"

record SlotTimes =
  slot_startTime :: Date
  slot_endTime :: Date

text \<open>\<open>createDateTimeFromSlot\<close>: the start hour is the text before the first colon.\<close>

definition createDateTimeFromSlot :: "Date \<Rightarrow> string \<Rightarrow> SlotTimes option" where
  "createDateTimeFromSlot date slot =
     (case NumberOf (takeWhile (\<lambda>c. c \<noteq> CHR '':'') slot) 0 of
        None \<Rightarrow> None
      | Some startHour \<Rightarrow>
          let start = setHours (int startHour) 0 0 0 date;
              finish = setHours (int startHour + 2) 0 0 0 start
          in Some \<lparr>slot_startTime = start, slot_endTime = finish\<rparr>)"

record AvailableSlot =
  av_timeSlot :: string
  av_startTime :: Date
  av_endTime :: Date

text \<open>The appointments the query of \<open>findAvailableSlot\<close> returns for a date.\<close>

definition existingAppointments :: "Date \<Rightarrow> Appointment list \<Rightarrow> Appointment list" where
  "existingAppointments requestedDate col =
     (let startOfDay = setHours 0 0 0 0 requestedDate;
          endOfDay = setHours 23 59 59 999 requestedDate
      in sort_key startTime
           (filter (\<lambda>a. startOfDay \<le> appointmentDate a \<and> appointmentDate a \<le> endOfDay \<and>
                         status a \<in> set activeStatuses) col))"

fun firstAvailable :: "Date \<Rightarrow> string list \<Rightarrow> string list \<Rightarrow> AvailableSlot option" where
  "firstAvailable requestedDate bookedSlots [] = None"
| "firstAvailable requestedDate bookedSlots (slot # rest) =
     (if slot \<notin> set bookedSlots then
        (case createDateTimeFromSlot requestedDate slot of
           None \<Rightarrow> None
         | Some t \<Rightarrow> Some \<lparr>av_timeSlot = slot, av_startTime = slot_startTime t,
                            av_endTime = slot_endTime t\<rparr>)
      else firstAvailable requestedDate bookedSlots rest)"

definition findAvailableSlot :: "Date \<Rightarrow> Appointment list \<Rightarrow> AvailableSlot option" where
  "findAvailableSlot requestedDate col =
     (let allTimeSlots = getTimeSlots;
          bookedSlots = map timeSlot (existingAppointments requestedDate col)
      in firstAvailable requestedDate bookedSlots allTimeSlots)"

definition getUserAppointmentCount :: "nat \<Rightarrow> Appointment list \<Rightarrow> nat" where
  "getUserAppointmentCount userId col =
     length (filter (\<lambda>a. a_userId a = userId \<and> status a \<in> set activeStatuses) col)"

section \<open>Booking window\<close>

text \<open>The aggregation pipeline: match, group by the date string with a count, keep the
  groups of at least four.\<close>

definition getFullyBookedDatesInRange :: "Date \<Rightarrow> Date \<Rightarrow> Appointment list \<Rightarrow> string list" where
  "getFullyBookedDatesInRange startDate endDate col =
     (let matched = filter (\<lambda>a. startDate \<le> appointmentDate a \<and> appointmentDate a \<le> endDate \<and>
                               status a \<in> set activeStatuses) col;
          keys = map (\<lambda>a. isoDateString (appointmentDate a)) matched
      in filter (\<lambda>k. 4 \<le> count_list keys k) (remdups keys))"

text \<open>\<open>Math.ceil(a / b)\<close> for integers \<open>a\<close> and a positive \<open>b\<close>.\<close>

definition Math_ceil_div :: "int \<Rightarrow> int \<Rightarrow> int" where
  "Math_ceil_div a b = - ((- a) div b)"

record WindowValidation =
  isValid :: bool
  message :: "string option"

definition validateBookingWindow :: "Date \<Rightarrow> Date \<Rightarrow> Appointment list \<Rightarrow> WindowValidation" where
  "validateBookingWindow now requestedDate col =
     (let today = setHours 0 0 0 0 now;
          requestedDateOnly = setHours 0 0 0 0 requestedDate
      in if requestedDateOnly < today then
           \<lparr>isValid = False, message = Some ''Cannot book appointments in the past''\<rparr>
         else
           let threeMonthsFromNow = addMonths today 3 in
           if requestedDateOnly \<le> threeMonthsFromNow then \<lparr>isValid = True, message = None\<rparr>
           else
             let fullyBookedDates = getFullyBookedDatesInRange today threeMonthsFromNow col;
                 totalDaysInRange = Math_ceil_div (threeMonthsFromNow - today) msPerDay
             in if int (length fullyBookedDates) \<ge> totalDaysInRange then
                  let sixMonthsFromNow = addMonths today 6 in
                  if requestedDateOnly \<le> sixMonthsFromNow then \<lparr>isValid = True, message = None\<rparr>
                  else \<lparr>isValid = False, message = Some
                    ''Booking window extended to 6 months due to high demand. Please choose a date within 6 months.''\<rparr>
                else \<lparr>isValid = False, message = Some ''Please choose a date within the next 3 months''\<rparr>)"

section \<open>Appointment lifecycle\<close>

text \<open>
  What a request handler answers. The model starts after request validation and
  authentication have passed; notification e-mails are fire-and-forget and left out.
\<close>

datatype Response =
    Created Appointment int
  | Cancelled int
  | AdminCancelled nat
  | PointsUpdated int
  | PurchaseCompleted bool int
  | Accepted string
  | InsufficientPoints int int
  | BadRequest string
  | NotFound string
  | ServerError string

text \<open>
  Storage failures the handlers can meet: \<open>saveFails\<close> makes \<open>appointment.save()\<close> reject,
  \<open>incFails\<close> makes the \<open>$inc\<close> update of the user reject. Either lands in the handler's
  \<open>catch\<close>, which answers 500.
\<close>

record Faults =
  saveFails :: bool
  incFails :: bool

definition noFaults :: Faults where
  "noFaults = \<lparr>saveFails = False, incFails = False\<rparr>"

record AppointmentData =
  d_userId :: nat
  d_serviceType :: ServiceType
  d_appointmentDate :: Date
  d_location :: string
  d_timeSlot :: string
  d_startTime :: Date
  d_endTime :: Date
  d_price :: int
  d_notes :: "string option"

definition createAppointment :: "Faults \<Rightarrow> AppointmentData \<Rightarrow> Database \<Rightarrow> DbError + (Database \<times> Appointment)" where
  "createAppointment faults appointmentData db =
     (let appointment =
            \<lparr>a_userId = d_userId appointmentData,
             serviceType = d_serviceType appointmentData,
             appointmentDate = d_appointmentDate appointmentData,
             timeSlot = d_timeSlot appointmentData,
             startTime = d_startTime appointmentData,
             endTime = d_endTime appointmentData,
             location = d_location appointmentData,
             status = confirmed,
             price = d_price appointmentData,
             a_notes = d_notes appointmentData\<rparr>
      in if saveFails faults then Inl WriteFailed
         else case insertAppointment appointment (appointments db) of
                Inl e \<Rightarrow> Inl e
              | Inr col \<Rightarrow> Inr (db\<lparr>appointments := col\<rparr>, appointment))"

definition deductUserPoints :: "Faults \<Rightarrow> nat \<Rightarrow> int \<Rightarrow> Database \<Rightarrow> DbError + Database" where
  "deductUserPoints faults userId points db =
     (if incFails faults then Inl WriteFailed else Inr (incUserPoints userId (- points) db))"

definition bookAppointment ::
  "Date \<Rightarrow> Faults \<Rightarrow> nat \<Rightarrow> ServiceType \<Rightarrow> Date \<Rightarrow> string \<Rightarrow> string option \<Rightarrow> Database
     \<Rightarrow> Database \<times> Response" where
  "bookAppointment now faults userId svc requestedDate loc nts db =
     (let windowValidation = validateBookingWindow now requestedDate (appointments db) in
      if \<not> isValid windowValidation then
        (db, BadRequest (case message windowValidation of Some m \<Rightarrow> m | None \<Rightarrow> []))
      else if 3 \<le> getUserAppointmentCount userId (appointments db) then
        (db, BadRequest
           ''Maximum appointment limit reached. You can have up to 3 active appointments.'')
      else
        case findAvailableSlot requestedDate (appointments db) of
          None \<Rightarrow>
            (db, BadRequest ''No available time slots for this date. Please choose another date.'')
        | Some availableSlot \<Rightarrow>
            let appointmentPrice = calculateAppointmentPrice svc requestedDate in
            (case users db userId of
               None \<Rightarrow> (db, NotFound ''User not found'')
             | Some user \<Rightarrow>
                 if totalPoints user < appointmentPrice then
                   (db, InsufficientPoints appointmentPrice (totalPoints user))
                 else
                   (case createAppointment faults
                           \<lparr>d_userId = userId, d_serviceType = svc,
                            d_appointmentDate = requestedDate, d_location = loc,
                            d_timeSlot = av_timeSlot availableSlot,
                            d_startTime = av_startTime availableSlot,
                            d_endTime = av_endTime availableSlot,
                            d_price = appointmentPrice, d_notes = nts\<rparr> db of
                      Inl e \<Rightarrow> (db, ServerError ''Failed to book appointment'')
                    | Inr (db1, appointment) \<Rightarrow>
                        (case deductUserPoints faults userId appointmentPrice db1 of
                           Inl e \<Rightarrow> (db1, ServerError ''Failed to book appointment'')
                         | Inr db2 \<Rightarrow>
                             (db2, Created appointment (totalPoints user - appointmentPrice))))))"

text \<open>\<open>cancelAppointment\<close> of \<open>appointmentController.ts\<close>: the owner's cancellation.\<close>

definition cancelAppointment :: "nat \<Rightarrow> nat \<Rightarrow> Database \<Rightarrow> Database \<times> Response" where
  "cancelAppointment appointmentId userId db =
     (if \<not> (appointmentId < length (appointments db) \<and>
             a_userId (appointments db ! appointmentId) = userId) then
        (db, NotFound ''Appointment not found'')
      else
        let appointment = appointments db ! appointmentId in
        if status appointment = cancelled then
          (db, BadRequest ''Appointment is already cancelled'')
        else if status appointment = completed then
          (db, BadRequest ''Cannot cancel completed appointment'')
        else
          case saveAppointment appointmentId (appointment\<lparr>status := cancelled\<rparr>) (appointments db) of
            Inl e \<Rightarrow> (db, ServerError ''Failed to cancel appointment'')
          | Inr col \<Rightarrow>
              let db1 = incUserPoints userId (price appointment) (db\<lparr>appointments := col\<rparr>) in
              (case users db1 userId of
                 None \<Rightarrow> (db1, ServerError ''Failed to cancel appointment'')
               | Some user \<Rightarrow> (db1, Cancelled (price appointment))))"

text \<open>The schema's \<open>trim: true\<close> on \<open>notes\<close>.\<close>

definition isSpace :: "char \<Rightarrow> bool" where
  "isSpace c = (c \<in> set [CHR '' '', CHR 0x09, CHR 0x0A, CHR 0x0D])"

definition trim :: "string \<Rightarrow> string" where
  "trim s = rev (dropWhile isSpace (rev (dropWhile isSpace s)))"

text \<open>\<open>cancelAppointment\<close> of \<open>adminController.ts\<close>: the admin's cancellation of any
  appointment, with an optional reason appended to the notes.\<close>

definition admin_cancelAppointment :: "nat \<Rightarrow> string option \<Rightarrow> Database \<Rightarrow> Database \<times> Response" where
  "admin_cancelAppointment appointmentId reason db =
     (if \<not> appointmentId < length (appointments db) then
        (db, NotFound ''Appointment not found'')
      else
        let appointment = appointments db ! appointmentId in
        if status appointment = cancelled then
          (db, BadRequest ''Appointment is already cancelled'')
        else if status appointment = completed then
          (db, BadRequest ''Cannot cancel a completed appointment'')
        else
          let newNotes =
                (case reason of
                   None \<Rightarrow> a_notes appointment
                 | Some r \<Rightarrow>
                     if r = [] then a_notes appointment
                     else (case a_notes appointment of
                             None \<Rightarrow> Some (trim (''Cancelled by admin: '' @ r))
                           | Some n \<Rightarrow>
                               if n = [] then Some (trim (''Cancelled by admin: '' @ r))
                               else Some (trim (n @ [CHR 0x0A, CHR 0x0A] @ ''Cancelled by admin: '' @ r))))
          in case saveAppointment appointmentId
                    (appointment\<lparr>status := cancelled, a_notes := newNotes\<rparr>) (appointments db) of
               Inl e \<Rightarrow> (db, ServerError ''Failed to cancel appointment'')
             | Inr col \<Rightarrow>
                 let db1 = db\<lparr>appointments := col\<rparr> in
                 (case users db1 (a_userId appointment) of
                    None \<Rightarrow> (db1, ServerError ''Failed to cancel appointment'')
                  | Some user \<Rightarrow> (db1, AdminCancelled appointmentId)))"

section \<open>Points ledger\<close>

text \<open>
  \<open>updateUserPoints\<close> of \<open>adminController.ts\<close>. The handler does not read the validation
  result, so \<open>points\<close> is any integer; it writes through \<open>user.save()\<close>, whose schema
  validation (\<open>totalPoints: min 0\<close>) rejects a negative total, which the \<open>catch\<close> answers
  with 500.
\<close>

definition admin_updateUserPoints :: "nat \<Rightarrow> int \<Rightarrow> string \<Rightarrow> Database \<Rightarrow> Database \<times> Response" where
  "admin_updateUserPoints userId points operation db =
     (case users db userId of
        None \<Rightarrow> (db, NotFound ''User not found'')
      | Some user \<Rightarrow>
          let save = (\<lambda>newPointsTotal.
                 if newPointsTotal < 0 then (db, ServerError ''Failed to update points'')
                 else (db\<lparr>users := (users db)(userId \<mapsto> user\<lparr>totalPoints := newPointsTotal\<rparr>)\<rparr>,
                       PointsUpdated newPointsTotal))
          in if operation = ''add'' then save (totalPoints user + points)
             else if operation = ''subtract'' then
               (let newPointsTotal = totalPoints user - points in
                if newPointsTotal < 0 then (db, InsufficientPoints points (totalPoints user))
                else save newPointsTotal)
             else if operation = ''set'' then save points
             else (db, BadRequest ''Invalid operation. Use add, subtract, or set.''))"

text \<open>
  \<open>updateUserPoints\<close> of \<open>userController.ts\<close>. The validation result is read first
  (\<open>points\<close> an integer of at least 1, \<open>operation\<close> one of the three); the write is
  \<open>findByIdAndUpdate\<close>, which runs no validators.
\<close>

definition updateUserPoints :: "nat \<Rightarrow> int \<Rightarrow> string \<Rightarrow> Database \<Rightarrow> Database \<times> Response" where
  "updateUserPoints userId points operation db =
     (if points < 1 \<or> operation \<notin> set [''add'', ''subtract'', ''set''] then
        (db, BadRequest ''Validation failed'')
      else
        case users db userId of
          None \<Rightarrow> (db, NotFound ''User not found'')
        | Some user \<Rightarrow>
            let write = (\<lambda>newTotal.
                   (db\<lparr>users := (users db)(userId \<mapsto> user\<lparr>totalPoints := newTotal\<rparr>)\<rparr>,
                    PointsUpdated newTotal))
            in if operation = ''add'' then write (totalPoints user + points)
               else if operation = ''subtract'' then
                 (let newTotal = totalPoints user - points in
                  if newTotal < 0 then (db, InsufficientPoints points (totalPoints user))
                  else write newTotal)
               else if operation = ''set'' then write points
               else (db, BadRequest ''Invalid operation. Use add, subtract, or set''))"

section \<open>Purchase reconciliation\<close>

fun findIndex :: "('a \<Rightarrow> bool) \<Rightarrow> 'a list \<Rightarrow> nat option" where
  "findIndex P [] = None"
| "findIndex P (x # xs) = (if P x then Some 0 else map_option Suc (findIndex P xs))"

text \<open>\<open>Purchase.findOneAndUpdate({stripePaymentIntentId: ref}, {status: st})\<close>.\<close>

definition setPurchaseStatus :: "string \<Rightarrow> PurchaseStatus \<Rightarrow> Database \<Rightarrow> Database" where
  "setPurchaseStatus ref st db =
     (case findIndex (\<lambda>p. stripePaymentIntentId p = ref) (purchases db) of
        None \<Rightarrow> db
      | Some i \<Rightarrow> db\<lparr>purchases := (purchases db)[i := (purchases db ! i)\<lparr>p_status := st\<rparr>]\<rparr>)"

record PaymentResult =
  res_purchase :: Purchase
  res_pointsAwarded :: int
  alreadyProcessed :: bool

datatype 'a Outcome = Returned 'a | Threw string

text \<open>
  \<open>StripeService.handleSuccessfulPayment\<close>, as the sequence of its awaited writes: the
  database after each write, in order, and what the call returns or throws. The purchase
  is read with its pack and user populated; a purchase that has already succeeded returns
  at once with no write. Otherwise the first write sets the status to processing; a
  missing pack or user then makes the property access throw a \<open>TypeError\<close>, and the
  \<open>catch\<close> marks the purchase failed and rethrows; else the user's points are incremented
  and the last write records the awards and the status succeeded.
  \<open>pack.pointsIncluded || 0\<close> is the number itself on integers.
\<close>

definition handleSuccessfulPayment_writes ::
  "string \<Rightarrow> Database \<Rightarrow> Database list \<times> PaymentResult option Outcome" where
  "handleSuccessfulPayment_writes paymentIntentId db =
     (case findIndex (\<lambda>p. stripePaymentIntentId p = paymentIntentId) (purchases db) of
        None \<Rightarrow> ([], Returned None)
      | Some i \<Rightarrow>
          let purchase = purchases db ! i;
              pack = packs db (p_packId purchase);
              user = users db (p_userId purchase)
          in if p_status purchase = p_succeeded then
               ([], Returned (Some \<lparr>res_purchase = purchase,
                  res_pointsAwarded = pointsAwarded purchase + bonusPointsAwarded purchase,
                  alreadyProcessed = True\<rparr>))
             else
               let claimed = purchase\<lparr>p_status := p_processing\<rparr>;
                   db1 = db\<lparr>purchases := (purchases db)[i := claimed]\<rparr>
               in case pack of
                    None \<Rightarrow>
                      ([db1, setPurchaseStatus paymentIntentId p_failed db1], Threw ''TypeError'')
                  | Some pk \<Rightarrow>
                      let pointsToAward = pointsIncluded pk;
                          bonusPointsToAward = bonusPoints pk;
                          totalPointsToAward = pointsToAward + bonusPointsToAward
                      in (case user of
                            None \<Rightarrow>
                              ([db1, setPurchaseStatus paymentIntentId p_failed db1],
                               Threw ''TypeError'')
                          | Some u \<Rightarrow>
                              let db2 = incUserPoints (p_userId purchase) totalPointsToAward db1 in
                              (case users db2 (p_userId purchase) of
                                 None \<Rightarrow>
                                   let db3 = db2\<lparr>purchases :=
                                         (purchases db2)[i := claimed\<lparr>p_status := p_failed\<rparr>]\<rparr>
                                   in ([db1, db2, db3, setPurchaseStatus paymentIntentId p_failed db3],
                                       Threw ''Failed to update user points'')
                               | Some updatedUser \<Rightarrow>
                                   let settled = claimed\<lparr>p_status := p_succeeded,
                                         pointsAwarded := pointsToAward,
                                         bonusPointsAwarded := bonusPointsToAward\<rparr>
                                   in ([db1, db2, db2\<lparr>purchases := (purchases db2)[i := settled]\<rparr>],
                                       Returned (Some \<lparr>res_purchase = settled,
                                         res_pointsAwarded = totalPointsToAward,
                                         alreadyProcessed = False\<rparr>)))))"

text \<open>The call as its callers see it: the database after the last write, and the outcome.\<close>

definition handleSuccessfulPayment :: "string \<Rightarrow> Database \<Rightarrow> Database \<times> PaymentResult option Outcome" where
  "handleSuccessfulPayment paymentIntentId db =
     (case handleSuccessfulPayment_writes paymentIntentId db of
        (writes, outcome) \<Rightarrow> (last (db # writes), outcome))"

text \<open>The status of a Stripe payment intent.\<close>

datatype IntentStatus =
    requires_payment_method | requires_confirmation | requires_action | intent_processing
  | requires_capture | intent_canceled | intent_succeeded

text \<open>
  \<open>confirmPurchase\<close>: the client-confirm path. \<open>getPaymentIntent\<close> is the payment
  processor's answer for an intent id, \<open>None\<close> when the call throws.
\<close>

definition confirmPurchase ::
  "nat \<Rightarrow> string \<Rightarrow> (string \<rightharpoonup> IntentStatus) \<Rightarrow> Database \<Rightarrow> Database \<times> Response" where
  "confirmPurchase userId paymentIntentId getPaymentIntent db =
     (case findIndex (\<lambda>p. stripePaymentIntentId p = paymentIntentId \<and> p_userId p = userId)
             (purchases db) of
        None \<Rightarrow> (db, NotFound ''Purchase not found'')
      | Some i \<Rightarrow>
          let purchase = purchases db ! i in
          if p_status purchase = p_succeeded then
            (db, PurchaseCompleted True (pointsAwarded purchase + bonusPointsAwarded purchase))
          else if p_status purchase = p_processing then
            (db, Accepted ''Purchase is being processed, please wait'')
          else
            case getPaymentIntent paymentIntentId of
              None \<Rightarrow> (db, ServerError ''Failed to verify payment status'')
            | Some intentStatus \<Rightarrow>
                if intentStatus = intent_succeeded then
                  (case handleSuccessfulPayment paymentIntentId db of
                     (db', Returned (Some result)) \<Rightarrow>
                       (db', PurchaseCompleted (alreadyProcessed result) (res_pointsAwarded result))
                   | (db', Returned None) \<Rightarrow> (db', BadRequest ''Purchase processing failed'')
                   | (db', Threw e) \<Rightarrow> (db', ServerError ''Failed to process successful payment''))
                else if intentStatus = requires_payment_method then
                  (db, BadRequest ''Payment requires a new payment method'')
                else if intentStatus = intent_canceled then
                  (db, BadRequest ''Payment was canceled'')
                else (db, BadRequest ''Payment not completed''))"

text \<open>\<open>handleStripeWebhook\<close> on an event whose signature has been verified. It always
  acknowledges with 200, so only the database is returned.\<close>

datatype StripeEvent =
    payment_intent_succeeded string
  | payment_intent_payment_failed string
  | payment_intent_canceled string
  | payment_intent_requires_action string
  | unhandled_event string

definition handleStripeWebhook :: "StripeEvent \<Rightarrow> Database \<Rightarrow> Database" where
  "handleStripeWebhook event db =
     (case event of
        payment_intent_succeeded ref \<Rightarrow> fst (handleSuccessfulPayment ref db)
      | payment_intent_payment_failed ref \<Rightarrow> setPurchaseStatus ref p_failed db
      | payment_intent_canceled ref \<Rightarrow> setPurchaseStatus ref p_canceled db
      | payment_intent_requires_action ref \<Rightarrow> db
      | unhandled_event name \<Rightarrow> db)"

section \<open>Requests\<close>

text \<open>Every modelled handler as one request, and a run of requests against the database.\<close>

datatype Request =
    Book Date Faults nat ServiceType Date string "string option"
  | CancelOwn nat nat
  | CancelAdmin nat "string option"
  | AdminPoints nat int string
  | UserPoints nat int string
  | Confirm nat string "string \<rightharpoonup> IntentStatus"
  | Webhook StripeEvent

fun step :: "Request \<Rightarrow> Database \<Rightarrow> Database" where
  "step (Book now faults userId svc requestedDate loc nts) db =
     fst (bookAppointment now faults userId svc requestedDate loc nts db)"
| "step (CancelOwn appointmentId userId) db = fst (cancelAppointment appointmentId userId db)"
| "step (CancelAdmin appointmentId reason) db = fst (admin_cancelAppointment appointmentId reason db)"
| "step (AdminPoints userId points operation) db = fst (admin_updateUserPoints userId points operation db)"
| "step (UserPoints userId points operation) db = fst (updateUserPoints userId points operation db)"
| "step (Confirm userId ref getPaymentIntent) db = fst (confirmPurchase userId ref getPaymentIntent db)"
| "step (Webhook event) db = handleStripeWebhook event db"

fun run :: "Request list \<Rightarrow> Database \<Rightarrow> Database" where
  "run [] db = db"
| "run (r # rs) db = run rs (step r db)"


text \<open>What the schemas' \<open>min: 0\<close> say of stored numbers.\<close>

definition nonNegative :: "Database \<Rightarrow> bool" where
  "nonNegative db =
     ((\<forall>u \<in> ran (users db). 0 \<le> totalPoints u) \<and>
      (\<forall>a \<in> set (appointments db). 0 \<le> price a) \<and>
      (\<forall>p \<in> ran (packs db). 0 \<le> pointsIncluded p \<and> 0 \<le> bonusPoints p))"

section \<open>Notions of the specification\<close>

text \<open>The slot labels occupied on the calendar day of \<open>d\<close>: those of the appointments of
  that day whose status is pending, confirmed or in progress.\<close>

definition occupiedSlots :: "Date \<Rightarrow> Appointment list \<Rightarrow> string set" where
  "occupiedSlots d col =
     set (map timeSlot (filter (\<lambda>a. Day (appointmentDate a) = Day d \<and>
                                     status a \<in> {pending, confirmed, in_progress}) col))"

text \<open>Sample data: Monday 2025-06-02, Saturday 2025-06-07 and Christmas Day 2025, at
  midnight UTC, and an appointment in the first slot of that Monday.\<close>

definition monday :: Date where
  "monday = 1748822400000"

definition saturday :: Date where
  "saturday = 1749254400000"

definition christmas :: Date where
  "christmas = 1766620800000"

definition mondayFirstSlot :: "AppointmentStatus \<Rightarrow> Appointment" where
  "mondayFirstSlot st =
     \<lparr>a_userId = 1, serviceType = basic, appointmentDate = monday, timeSlot = ''14:00-16:00'',
      startTime = monday + 14 * msPerHour, endTime = monday + 16 * msPerHour,
      location = ''Main Street 1'', status = st, price = 1000, a_notes = None\<rparr>"

text \<open>A user with a given balance, a database with that user (id 1) and given
  appointments, and a shop database with a pack of 2800 + 500 points and given purchases.\<close>

definition sampleUser :: "int \<Rightarrow> User" where
  "sampleUser n = \<lparr>email = ''kunde@example.dk'', totalPoints = n\<rparr>"

definition sampleDb :: "int \<Rightarrow> Appointment list \<Rightarrow> Database" where
  "sampleDb n col =
     \<lparr>users = [1 \<mapsto> sampleUser n], appointments = col, purchases = [], packs = Map.empty\<rparr>"

definition samplePack :: Pack where
  "samplePack = \<lparr>pointsIncluded = 2800, bonusPoints = 500\<rparr>"

definition samplePurchase :: "PurchaseStatus \<Rightarrow> int \<Rightarrow> int \<Rightarrow> Purchase" where
  "samplePurchase st pa ba =
     \<lparr>p_userId = 1, p_packId = 7, stripePaymentIntentId = ''pi_1'', p_status = st,
      pointsAwarded = pa, bonusPointsAwarded = ba\<rparr>"

definition shopDb :: "int \<Rightarrow> Purchase list \<Rightarrow> Database" where
  "shopDb n ps =
     \<lparr>users = [1 \<mapsto> sampleUser n], appointments = [], purchases = ps, packs = [7 \<mapsto> samplePack]\<rparr>"

text \<open>Sunday 2025-06-01, the day the sample booking is made.\<close>

definition sunday :: Date where
  "sunday = 1748736000000"

text \<open>The document \<open>bookAppointment\<close> hands to \<open>createAppointment\<close> for an allocated slot.\<close>

definition bookedAppointment :: "nat \<Rightarrow> ServiceType \<Rightarrow> Date \<Rightarrow> string \<Rightarrow> string option \<Rightarrow> AvailableSlot \<Rightarrow> Appointment" where
  "bookedAppointment uid svc d loc nts slot =
     \<lparr>a_userId = uid, serviceType = svc, appointmentDate = d, timeSlot = av_timeSlot slot,
      startTime = av_startTime slot, endTime = av_endTime slot, location = loc,
      status = confirmed, price = calculateAppointmentPrice svc d, a_notes = nts\<rparr>"

text \<open>A run of ledger requests, and a run of reconciliations of the sample reference.\<close>

definition sampleRequests :: "Request list" where
  "sampleRequests =
     [AdminPoints 1 1500 ''subtract'', UserPoints 1 400 ''subtract'',
      Book sunday noFaults 1 basic monday ''Main Street 1'' None, AdminPoints 1 (- 5) ''set'',
      CancelOwn 0 1]"


text \<open>
  A saturated calendar but for one day: today is 2025-02-01, and every date from today to
  today + 3 months (2025-05-01) except 2025-03-15 carries four confirmed appointments, one
  per slot, dated at midnight UTC. \<open>dayKey\<close> is the date string of the day \<open>k\<close> days
  after a start.
\<close>

definition feb1 :: Date where
  "feb1 = 1738368000000"

definition fullDay :: "Date \<Rightarrow> Appointment list" where
  "fullDay d =
     map (\<lambda>slot. \<lparr>a_userId = 1, serviceType = basic, appointmentDate = d, timeSlot = slot,
                  startTime = d, endTime = d, location = ''Main Street 1'', status = confirmed,
                  price = 1000, a_notes = None\<rparr>) getTimeSlots"

definition fullDays :: "Date \<Rightarrow> nat list \<Rightarrow> Appointment list" where
  "fullDays start ks = concat (map (\<lambda>k. fullDay (start + int k * msPerDay)) ks)"

definition march15 :: Date where
  "march15 = feb1 + 42 * msPerDay"

definition bookedOffsets :: "nat list" where
  "bookedOffsets = [0..<42] @ [43..<90]"

definition allButMarch15 :: "Appointment list" where
  "allButMarch15 = fullDays feb1 bookedOffsets"

definition dayKey :: "Date \<Rightarrow> nat \<Rightarrow> string" where
  "dayKey start k = isoDateString (start + int k * msPerDay)"

section \<open>Theorems\<close>

subsection \<open>Pricing\<close>

lemma Math_round_values:
  "Math_round (3 / 2 * 1000) = 1500" "Math_round (3 / 2 * 1400) = 2100"
  "Math_round (2 * 1000) = 2000" "Math_round (2 * 1400) = 2800"
  unfolding Math_round_def by linarith+

lemma price_table:
  "calculateAppointmentPrice st d =
     (case getDateType d of
        weekday \<Rightarrow> (case st of basic \<Rightarrow> 1000 | deluxe \<Rightarrow> 1400)
      | weekend \<Rightarrow> (case st of basic \<Rightarrow> 1500 | deluxe \<Rightarrow> 2100)
      | holiday \<Rightarrow> (case st of basic \<Rightarrow> 2000 | deluxe \<Rightarrow> 2800))"
  using Math_round_values
  by (cases st; cases "getDateType d")
    (simp_all add: calculateAppointmentPrice_def basePriceOf_def PRICING_CONFIG_def mult.commute)

lemma holiday_precedence: "isoDateString d \<in> set danishHolidays2025 \<Longrightarrow> getDateType d = holiday"
  by (simp add: getDateType_def)

lemma sample_date_types:
  "getDateType monday = weekday" "getDateType saturday = weekend" "getDateType christmas = holiday"
  by code_simp+

lemma christmas_listed: "isoDateString christmas \<in> set danishHolidays2025"
  by code_simp

text \<open>
  C9. For either service type, the price on a weekend date is the weekday price times 1.5,
  rounded, and the price on a holiday date is the weekday price times 2, rounded; the
  weekday price is the base price (basic 1000, deluxe 1400). A date on the holiday list
  is classified as a holiday and priced at twice the base price whatever its day of the
  week, since the list is consulted before the day of the week.
\<close>

theorem price_multipliers:
  "(getDateType wd = weekday \<and> getDateType we = weekend \<longrightarrow>
      calculateAppointmentPrice st we = Math_round (3 / 2 * of_int (calculateAppointmentPrice st wd)))
   \<and> (getDateType wd = weekday \<and> getDateType ho = holiday \<longrightarrow>
      calculateAppointmentPrice st ho = Math_round (2 * of_int (calculateAppointmentPrice st wd)))
   \<and> (getDateType wd = weekday \<longrightarrow>
      calculateAppointmentPrice st wd = (case st of basic \<Rightarrow> 1000 | deluxe \<Rightarrow> 1400))
   \<and> (isoDateString d \<in> set danishHolidays2025 \<longrightarrow>
      getDateType d = holiday \<and>
      calculateAppointmentPrice st d = (case st of basic \<Rightarrow> 2000 | deluxe \<Rightarrow> 2800))"
proof (cases st)
  case basic
  then show ?thesis
    using Math_round_values
    by (auto simp: price_table holiday_precedence)
next
  case deluxe
  then show ?thesis
    using Math_round_values
    by (auto simp: price_table holiday_precedence)
qed

theorem price_multipliers_witness:
  "getDateType monday = weekday \<and> getDateType saturday = weekend \<and>
   getDateType christmas = holiday \<and> isoDateString christmas \<in> set danishHolidays2025 \<and>
   calculateAppointmentPrice deluxe monday = 1400 \<and>
   calculateAppointmentPrice deluxe saturday = 2100 \<and>
   calculateAppointmentPrice deluxe christmas = 2800"
  using price_multipliers [where wd = monday and we = saturday and ho = christmas
      and d = christmas and st = deluxe]
    sample_date_types christmas_listed Math_round_values
  by simp

subsection \<open>Slot allocator\<close>

lemma Day_offset: "0 \<le> k \<Longrightarrow> k < 86400000 \<Longrightarrow> Day (Day d * 86400000 + k) = Day d"
  by (simp add: Day_def msPerDay_def)

lemma same_day_iff:
  "(setHours 0 0 0 0 d \<le> t \<and> t \<le> setHours 23 59 59 999 d \<and> P) = (Day t = Day d \<and> P)"
proof -
  have "(Day d * 86400000 \<le> t \<and> t \<le> Day d * 86400000 + 86399999) = (t div 86400000 = Day d)"
    by (auto simp: Day_def)
  then show ?thesis
    by (auto simp add: setHours_def msPerDay_def msPerHour_def Day_def)
qed

lemma bookedSlots_occupied:
  "set (map timeSlot (existingAppointments d col)) = occupiedSlots d col"
  by (simp add: existingAppointments_def occupiedSlots_def same_day_iff activeStatuses_def Let_def)

lemma slot_times:
  "createDateTimeFromSlot d ''14:00-16:00'' =
     Some \<lparr>slot_startTime = Day d * msPerDay + 14 * msPerHour,
           slot_endTime = Day d * msPerDay + 16 * msPerHour\<rparr>"
  "createDateTimeFromSlot d ''16:00-18:00'' =
     Some \<lparr>slot_startTime = Day d * msPerDay + 16 * msPerHour,
           slot_endTime = Day d * msPerDay + 18 * msPerHour\<rparr>"
  "createDateTimeFromSlot d ''18:00-20:00'' =
     Some \<lparr>slot_startTime = Day d * msPerDay + 18 * msPerHour,
           slot_endTime = Day d * msPerDay + 20 * msPerHour\<rparr>"
  "createDateTimeFromSlot d ''20:00-22:00'' =
     Some \<lparr>slot_startTime = Day d * msPerDay + 20 * msPerHour,
           slot_endTime = Day d * msPerDay + 22 * msPerHour\<rparr>"
  by (simp_all add: createDateTimeFromSlot_def digitValue_def setHours_def Day_offset
        msPerHour_def msPerDay_def Let_def)

lemma findAvailableSlot_cases:
  "findAvailableSlot d col =
    (let B = occupiedSlots d col; base = Day d * msPerDay in
     if ''14:00-16:00'' \<notin> B then
       Some \<lparr>av_timeSlot = ''14:00-16:00'', av_startTime = base + 14 * msPerHour,
             av_endTime = base + 16 * msPerHour\<rparr>
     else if ''16:00-18:00'' \<notin> B then
       Some \<lparr>av_timeSlot = ''16:00-18:00'', av_startTime = base + 16 * msPerHour,
             av_endTime = base + 18 * msPerHour\<rparr>
     else if ''18:00-20:00'' \<notin> B then
       Some \<lparr>av_timeSlot = ''18:00-20:00'', av_startTime = base + 18 * msPerHour,
             av_endTime = base + 20 * msPerHour\<rparr>
     else if ''20:00-22:00'' \<notin> B then
       Some \<lparr>av_timeSlot = ''20:00-22:00'', av_startTime = base + 20 * msPerHour,
             av_endTime = base + 22 * msPerHour\<rparr>
     else None)"
  unfolding findAvailableSlot_def getTimeSlots_def Let_def
  by (simp only: firstAvailable.simps bookedSlots_occupied slot_times option.case
        SlotTimes.select_convs split: if_split)




subsection \<open>The slot index\<close>

text \<open>
  C1. The unique index is keyed on the status value as well as on date and slot. With a
  confirmed appointment in the first slot of a day, saving a pending appointment for the
  same date and slot is accepted, leaving two active appointments in one slot; only a
  second appointment of the same status is refused.
\<close>

theorem slot_index_keyed_on_status:
  "insertAppointment (mondayFirstSlot pending) [mondayFirstSlot confirmed] =
     Inr [mondayFirstSlot confirmed, mondayFirstSlot pending]
   \<and> insertAppointment (mondayFirstSlot confirmed) [mondayFirstSlot confirmed] = Inl DuplicateKey
   \<and> length (filter (\<lambda>a. appointmentDate a = monday \<and> timeSlot a = ''14:00-16:00'' \<and>
                        status a \<in> {pending, confirmed, in_progress})
        [mondayFirstSlot confirmed, mondayFirstSlot pending]) = 2"
  by (simp add: insertAppointment_def violatesSlotIndex_def mondayFirstSlot_def activeStatuses_def)

subsection \<open>Cancellation\<close>

lemma admin_cancel_keeps_users: "users (fst (admin_cancelAppointment i reason db)) = users db"
  by (auto simp: admin_cancelAppointment_def Let_def saveAppointment_def
        split: option.splits sum.splits if_splits)

text \<open>
  C6. An appointment of user 1, confirmed, priced 1000, with the user's balance at 0.
  Cancelled by its owner, the status becomes cancelled and the balance 1000. Cancelled
  by an admin, the status becomes cancelled and the balance stays 0: the admin handler
  has no refund.
\<close>

theorem admin_cancel_no_refund:
  "cancelAppointment 0 1 (sampleDb 0 [mondayFirstSlot confirmed]) =
     (sampleDb 1000 [mondayFirstSlot cancelled], Cancelled 1000)
   \<and> admin_cancelAppointment 0 None (sampleDb 0 [mondayFirstSlot confirmed]) =
     (sampleDb 0 [mondayFirstSlot cancelled], AdminCancelled 0)"
  by (simp add: cancelAppointment_def admin_cancelAppointment_def sampleDb_def saveAppointment_def
        violatesSlotIndex_def mondayFirstSlot_def activeStatuses_def Let_def incUserPoints_def
        sampleUser_def)

subsection \<open>Purchase reconciliation\<close>

lemma findIndex_None: "(findIndex P xs = None) = (\<forall>x \<in> set xs. \<not> P x)"
  by (induction xs) auto

lemma findIndex_Some:
  "findIndex P xs = Some i \<Longrightarrow> i < length xs \<and> P (xs ! i) \<and> (\<forall>j < i. \<not> P (xs ! j))"
proof (induction xs arbitrary: i)
  case Nil
  then show ?case by simp
next
  case (Cons x xs)
  show ?case
  proof (cases "P x")
    case True
    with Cons.prems show ?thesis by simp
  next
    case False
    with Cons.prems obtain k where k: "findIndex P xs = Some k" "i = Suc k"
      by auto
    from Cons.IH[OF k(1)] False k(2) show ?thesis
      by (auto simp: nth_Cons split: nat.splits)
  qed
qed

lemma findIndex_first:
  "i < length xs \<Longrightarrow> P (xs ! i) \<Longrightarrow> \<forall>j < i. \<not> P (xs ! j) \<Longrightarrow> findIndex P xs = Some i"
proof (induction xs arbitrary: i)
  case Nil
  then show ?case by simp
next
  case (Cons x xs)
  show ?case
  proof (cases i)
    case 0
    with Cons.prems show ?thesis by simp
  next
    case (Suc k)
    with Cons.prems have "\<not> P x" by auto
    moreover have "findIndex P xs = Some k"
      using Cons.prems Suc by (intro Cons.IH) auto
    ultimately show ?thesis using Suc by simp
  qed
qed


lemma findIndex_distinct_key:
  assumes "findIndex (\<lambda>p. f p = k \<and> Q p) xs = Some i" "distinct (map f xs)"
  shows "findIndex (\<lambda>p. f p = k) xs = Some i"
proof (rule findIndex_first)
  from findIndex_Some[OF assms(1)] show i: "i < length xs" and "f (xs ! i) = k" by auto
  show "\<forall>j<i. f (xs ! j) \<noteq> k"
  proof (intro allI impI)
    fix j assume "j < i"
    with i have "map f xs ! j \<noteq> map f xs ! i"
      using assms(2) by (simp add: nth_eq_iff_index_eq del: nth_map)
    with \<open>j < i\<close> i \<open>f (xs ! i) = k\<close> show "f (xs ! j) \<noteq> k" by simp
  qed
qed

text \<open>
  C10. The client-confirm path looks the purchase up by payment reference and requesting
  user together: for an existing purchase owned by someone else (references are unique),
  \<open>confirmPurchase\<close> answers not-found and leaves the database as it was, so nothing is
  credited. The webhook path looks up by reference alone.
\<close>

theorem confirmPurchase_scoped:
  assumes "p \<in> set (purchases db)" "stripePaymentIntentId p = ref" "p_userId p \<noteq> requestor"
    and "distinct (map stripePaymentIntentId (purchases db))"
  shows "confirmPurchase requestor ref getPaymentIntent db = (db, NotFound ''Purchase not found'')"
proof -
  have "\<forall>q \<in> set (purchases db). \<not> (stripePaymentIntentId q = ref \<and> p_userId q = requestor)"
  proof
    fix q assume q: "q \<in> set (purchases db)"
    show "\<not> (stripePaymentIntentId q = ref \<and> p_userId q = requestor)"
    proof
      assume a: "stripePaymentIntentId q = ref \<and> p_userId q = requestor"
      with assms(1,2,4) q have "q = p"
        by (metis distinct_map inj_onD)
      with a assms(3) show False by simp
    qed
  qed
  then have "findIndex (\<lambda>p. stripePaymentIntentId p = ref \<and> p_userId p = requestor) (purchases db) = None"
    by (simp add: findIndex_None)
  then show ?thesis
    by (simp add: confirmPurchase_def)
qed

theorem confirmPurchase_scoped_witness:
  "samplePurchase p_pending 0 0 \<in> set (purchases (shopDb 100 [samplePurchase p_pending 0 0]))
   \<and> p_userId (samplePurchase p_pending 0 0) \<noteq> 2
   \<and> confirmPurchase 2 ''pi_1'' [''pi_1'' \<mapsto> intent_succeeded]
        (shopDb 100 [samplePurchase p_pending 0 0]) =
       (shopDb 100 [samplePurchase p_pending 0 0], NotFound ''Purchase not found'')"
  using confirmPurchase_scoped [of "samplePurchase p_pending 0 0"
      "shopDb 100 [samplePurchase p_pending 0 0]" "''pi_1''" 2 "[''pi_1'' \<mapsto> intent_succeeded]"]
  by (simp add: shopDb_def samplePurchase_def)

subsection \<open>Booking\<close>

lemma available_not_occupied:
  "findAvailableSlot d col = Some r \<Longrightarrow> av_timeSlot r \<notin> occupiedSlots d col"
  by (auto simp: findAvailableSlot_cases Let_def split: if_splits)

lemma free_slot_no_violation:
  assumes "findAvailableSlot d col = Some r" "appointmentDate doc = d" "timeSlot doc = av_timeSlot r"
  shows "\<not> violatesSlotIndex doc col"
proof
  assume "violatesSlotIndex doc col"
  then obtain a where a: "a \<in> set col" "status a \<in> set activeStatuses"
      "appointmentDate a = appointmentDate doc" "timeSlot a = timeSlot doc"
    by (auto simp: violatesSlotIndex_def)
  then have "a \<in> {x \<in> set col. Day (appointmentDate x) = Day d \<and>
        status x \<in> {pending, confirmed, in_progress}}"
    using assms(2) by (auto simp: activeStatuses_def)
  then have "timeSlot a \<in> occupiedSlots d col"
    unfolding occupiedSlots_def by (auto intro: rev_image_eqI)
  then have "timeSlot doc \<in> occupiedSlots d col"
    using a(4) by simp
  with available_not_occupied[OF assms(1)] assms(3) show False by simp
qed

lemma price_nonneg: "0 \<le> calculateAppointmentPrice svc d"
  by (cases svc; cases "getDateType d") (simp_all add: price_table)

lemma bookAppointment_passed:
  assumes "isValid (validateBookingWindow now d (appointments db))"
    and "getUserAppointmentCount uid (appointments db) < 3"
    and "findAvailableSlot d (appointments db) = Some slot"
    and "users db uid = Some user"
    and "calculateAppointmentPrice svc d \<le> totalPoints user"
  shows "bookAppointment now faults uid svc d loc nts db =
    (if saveFails faults then (db, ServerError ''Failed to book appointment'')
     else if incFails faults then
       (db\<lparr>appointments := appointments db @ [bookedAppointment uid svc d loc nts slot]\<rparr>,
        ServerError ''Failed to book appointment'')
     else
       (db\<lparr>appointments := appointments db @ [bookedAppointment uid svc d loc nts slot],
           users := (users db)(uid \<mapsto>
              user\<lparr>totalPoints := totalPoints user - calculateAppointmentPrice svc d\<rparr>)\<rparr>,
        Created (bookedAppointment uid svc d loc nts slot)
          (totalPoints user - calculateAppointmentPrice svc d)))"
proof -
  have nv: "\<not> violatesSlotIndex (bookedAppointment uid svc d loc nts slot) (appointments db)"
    by (rule free_slot_no_violation[OF assms(3)]) (simp_all add: bookedAppointment_def)
  have ins: "insertAppointment (bookedAppointment uid svc d loc nts slot) (appointments db) =
      Inr (appointments db @ [bookedAppointment uid svc d loc nts slot])"
    using nv price_nonneg[of svc d]
    by (simp add: insertAppointment_def) (simp add: bookedAppointment_def)
  show ?thesis
    using assms ins
    by (simp add: bookAppointment_def createAppointment_def deductUserPoints_def incUserPoints_def
          Let_def bookedAppointment_def[symmetric] not_le)
qed

lemma bookAppointment_rejected:
  assumes "\<not> isValid (validateBookingWindow now d (appointments db))
     \<or> 3 \<le> getUserAppointmentCount uid (appointments db)
     \<or> findAvailableSlot d (appointments db) = None
     \<or> users db uid = None
     \<or> (\<exists>user. users db uid = Some user \<and> totalPoints user < calculateAppointmentPrice svc d)"
  shows "fst (bookAppointment now faults uid svc d loc nts db) = db
     \<and> (\<forall>apt n. snd (bookAppointment now faults uid svc d loc nts db) \<noteq> Created apt n)"
  using assms
  by (auto simp: bookAppointment_def Let_def split: option.splits)

text \<open>
  C5 (as amended). When the debit does not fail, \<open>bookAppointment\<close> has both effects or
  none: either it appends one confirmed appointment at the computed price and lowers the
  user's balance by exactly that price, or the database is unchanged and no appointment is
  reported. A rejected window, the cap of three, no free slot, a missing user, too few
  points or a failing save of the appointment each leave the database unchanged. When the
  debit fails after the appointment was saved, the appointment stays and the balance is
  unchanged: there is no transaction and no compensation.
\<close>

theorem bookAppointment_unit_of_work:
  "(\<not> incFails faults \<longrightarrow>
      (\<exists>apt user.
          bookAppointment now faults uid svc d loc nts db =
            (db\<lparr>appointments := appointments db @ [apt],
                users := (users db)(uid \<mapsto> user\<lparr>totalPoints := totalPoints user - price apt\<rparr>)\<rparr>,
             Created apt (totalPoints user - price apt))
          \<and> users db uid = Some user \<and> status apt = confirmed \<and> a_userId apt = uid
          \<and> price apt = calculateAppointmentPrice svc d \<and> price apt \<le> totalPoints user)
      \<or> (fst (bookAppointment now faults uid svc d loc nts db) = db
          \<and> (\<forall>apt n. snd (bookAppointment now faults uid svc d loc nts db) \<noteq> Created apt n)))
   \<and> (incFails faults \<longrightarrow>
      (\<exists>apt.
          bookAppointment now faults uid svc d loc nts db =
            (db\<lparr>appointments := appointments db @ [apt]\<rparr>,
             ServerError ''Failed to book appointment'')
          \<and> status apt = confirmed \<and> a_userId apt = uid
          \<and> price apt = calculateAppointmentPrice svc d)
      \<or> (fst (bookAppointment now faults uid svc d loc nts db) = db
          \<and> (\<forall>apt n. snd (bookAppointment now faults uid svc d loc nts db) \<noteq> Created apt n)))
   \<and> (\<not> isValid (validateBookingWindow now d (appointments db))
       \<or> 3 \<le> getUserAppointmentCount uid (appointments db)
       \<or> findAvailableSlot d (appointments db) = None
       \<or> users db uid = None
       \<or> (\<exists>user. users db uid = Some user \<and> totalPoints user < calculateAppointmentPrice svc d)
       \<or> saveFails faults
      \<longrightarrow> fst (bookAppointment now faults uid svc d loc nts db) = db
          \<and> (\<forall>apt n. snd (bookAppointment now faults uid svc d loc nts db) \<noteq> Created apt n))"
proof (cases "\<not> isValid (validateBookingWindow now d (appointments db))
     \<or> 3 \<le> getUserAppointmentCount uid (appointments db)
     \<or> findAvailableSlot d (appointments db) = None
     \<or> users db uid = None
     \<or> (\<exists>user. users db uid = Some user \<and> totalPoints user < calculateAppointmentPrice svc d)")
  case True
  from bookAppointment_rejected[OF True] show ?thesis by blast
next
  case False
  then obtain slot user where ok: "isValid (validateBookingWindow now d (appointments db))"
      "getUserAppointmentCount uid (appointments db) < 3"
      "findAvailableSlot d (appointments db) = Some slot"
      "users db uid = Some user"
      "calculateAppointmentPrice svc d \<le> totalPoints user"
    by (auto simp: not_le not_less)
  note eq = bookAppointment_passed[OF ok, of faults loc nts]
  show ?thesis
  proof (cases "saveFails faults")
    case True
    then show ?thesis using eq by simp
  next
    case sf: False
    show ?thesis
    proof (cases "incFails faults")
      case True
      then show ?thesis using eq sf False
        by (auto simp: bookedAppointment_def intro!: exI[of _ "bookedAppointment uid svc d loc nts slot"])
    next
      case nf: False
      have "\<exists>apt user'. bookAppointment now faults uid svc d loc nts db =
            (db\<lparr>appointments := appointments db @ [apt],
                users := (users db)(uid \<mapsto> user'\<lparr>totalPoints := totalPoints user' - price apt\<rparr>)\<rparr>,
             Created apt (totalPoints user' - price apt))
          \<and> users db uid = Some user' \<and> status apt = confirmed \<and> a_userId apt = uid
          \<and> price apt = calculateAppointmentPrice svc d \<and> price apt \<le> totalPoints user'"
        apply (rule exI[of _ "bookedAppointment uid svc d loc nts slot"])
        apply (rule exI[of _ user])
        using eq sf nf ok by (simp add: bookedAppointment_def)
      then show ?thesis using nf sf False by blast
    qed
  qed
qed

lemma sunday_monday_dates:
  "\<not> setHours 0 0 0 0 monday < setHours 0 0 0 0 sunday"
  "setHours 0 0 0 0 monday \<le> addMonths (setHours 0 0 0 0 sunday) 3"
  by code_simp+

lemma sunday_monday_window: "isValid (validateBookingWindow sunday monday col)"
  by (simp add: validateBookingWindow_def Let_def sunday_monday_dates)

lemma monday_empty_slot:
  "findAvailableSlot monday [] =
     Some \<lparr>av_timeSlot = ''14:00-16:00'', av_startTime = monday + 14 * msPerHour,
           av_endTime = monday + 16 * msPerHour\<rparr>"
  by (simp add: findAvailableSlot_cases occupiedSlots_def Let_def)
    (simp add: monday_def Day_def msPerDay_def)

lemma monday_basic_price: "calculateAppointmentPrice basic monday = 1000"
  by (simp add: price_table sample_date_types)

lemma sample_booking:
  "bookAppointment sunday faults 1 basic monday ''Main Street 1'' None (sampleDb 2000 []) =
    (if saveFails faults then (sampleDb 2000 [], ServerError ''Failed to book appointment'')
     else if incFails faults then
       (sampleDb 2000 [mondayFirstSlot confirmed], ServerError ''Failed to book appointment'')
     else (sampleDb 1000 [mondayFirstSlot confirmed], Created (mondayFirstSlot confirmed) 1000))"
proof -
  let ?slot = "\<lparr>av_timeSlot = ''14:00-16:00'', av_startTime = monday + 14 * msPerHour,
           av_endTime = monday + 16 * msPerHour\<rparr>"
  have apt: "bookedAppointment 1 basic monday ''Main Street 1'' None ?slot = mondayFirstSlot confirmed"
    by (simp add: bookedAppointment_def mondayFirstSlot_def monday_basic_price)
  have 1: "isValid (validateBookingWindow sunday monday (appointments (sampleDb 2000 [])))"
    by (rule sunday_monday_window)
  have 2: "getUserAppointmentCount 1 (appointments (sampleDb 2000 [])) < 3"
    by (simp add: sampleDb_def getUserAppointmentCount_def)
  have 3: "findAvailableSlot monday (appointments (sampleDb 2000 [])) = Some ?slot"
    by (simp add: sampleDb_def monday_empty_slot)
  have 4: "users (sampleDb 2000 []) 1 = Some (sampleUser 2000)"
    by (simp add: sampleDb_def)
  have 5: "calculateAppointmentPrice basic monday \<le> totalPoints (sampleUser 2000)"
    by (simp add: monday_basic_price sampleUser_def)
  show ?thesis
    unfolding bookAppointment_passed[OF 1 2 3 4 5] apt
    by (simp add: sampleDb_def monday_basic_price sampleUser_def)
qed

theorem bookAppointment_unit_of_work_witness:
  "\<not> incFails noFaults \<and>
   bookAppointment sunday noFaults 1 basic monday ''Main Street 1'' None (sampleDb 2000 []) =
     (sampleDb 1000 [mondayFirstSlot confirmed], Created (mondayFirstSlot confirmed) 1000) \<and>
   saveFails \<lparr>saveFails = True, incFails = False\<rparr> \<and>
   fst (bookAppointment sunday \<lparr>saveFails = True, incFails = False\<rparr> 1 basic monday
     ''Main Street 1'' None (sampleDb 2000 [])) = sampleDb 2000 []"
proof -
  have ok: "\<not> incFails noFaults" and sf: "saveFails \<lparr>saveFails = True, incFails = False\<rparr>"
    by (simp_all add: noFaults_def)
  have booked: "bookAppointment sunday noFaults 1 basic monday ''Main Street 1'' None
      (sampleDb 2000 []) =
     (sampleDb 1000 [mondayFirstSlot confirmed], Created (mondayFirstSlot confirmed) 1000)"
    by (simp only: sample_booking noFaults_def) simp
  from bookAppointment_unit_of_work [of "\<lparr>saveFails = True, incFails = False\<rparr>" sunday 1 basic
      monday "''Main Street 1''" None "sampleDb 2000 []"] sf
  have "fst (bookAppointment sunday \<lparr>saveFails = True, incFails = False\<rparr> 1 basic monday
     ''Main Street 1'' None (sampleDb 2000 [])) = sampleDb 2000 []"
    by blast
  with ok sf booked show ?thesis by blast
qed

text \<open>
  C5 as stated fails: with the \<open>$inc\<close> update failing, the booking of user 1 (2000 points)
  for Monday leaves the confirmed appointment in the collection and the balance at 2000.
\<close>

theorem bookAppointment_orphan_counterexample:
  "bookAppointment sunday \<lparr>saveFails = False, incFails = True\<rparr> 1 basic monday
     ''Main Street 1'' None (sampleDb 2000 []) =
   (sampleDb 2000 [mondayFirstSlot confirmed], ServerError ''Failed to book appointment'')"
  by (simp only: sample_booking) simp

subsection \<open>Points ledger\<close>

lemma nonNegative_iff:
  "nonNegative db =
     ((\<forall>k u. users db k = Some u \<longrightarrow> 0 \<le> totalPoints u) \<and>
      (\<forall>a \<in> set (appointments db). 0 \<le> price a) \<and>
      (\<forall>k p. packs db k = Some p \<longrightarrow> 0 \<le> pointsIncluded p \<and> 0 \<le> bonusPoints p))"
  by (auto simp: nonNegative_def ran_def)

lemma set_update_price:
  "\<forall>a \<in> set col. 0 \<le> price a \<Longrightarrow> 0 \<le> price x \<Longrightarrow> \<forall>a \<in> set (col[i := x]). 0 \<le> price a"
  by (metis insert_iff set_update_subset_insert subsetD)

lemma set_update_same_price:
  assumes "\<forall>a \<in> set col. 0 \<le> price a" "i < length col"
    and "a \<in> set (col[i := x])" "price x = price (col ! i)"
  shows "0 \<le> price a"
proof -
  from assms(1,2,4) have "0 \<le> price x" by simp
  with assms(1,3) show ?thesis using set_update_price by blast
qed

lemma setPurchaseStatus_frame:
  "users (setPurchaseStatus ref st db) = users db"
  "appointments (setPurchaseStatus ref st db) = appointments db"
  "packs (setPurchaseStatus ref st db) = packs db"
  by (simp_all add: setPurchaseStatus_def split: option.splits)

lemma nonNegative_setPurchaseStatus:
  "nonNegative db \<Longrightarrow> nonNegative (setPurchaseStatus ref st db)"
  by (simp add: nonNegative_def setPurchaseStatus_frame)

lemma nonNegative_handleSuccessfulPayment:
  assumes "nonNegative db"
  shows "nonNegative (fst (handleSuccessfulPayment ref db))"
  using assms
  by (auto simp: nonNegative_iff handleSuccessfulPayment_def handleSuccessfulPayment_writes_def
        Let_def incUserPoints_def setPurchaseStatus_frame split: option.splits if_splits)

lemma nonNegative_confirmPurchase:
  assumes "nonNegative db"
  shows "nonNegative (fst (confirmPurchase uid ref g db))"
proof -
  have "fst (confirmPurchase uid ref g db) = db \<or>
        fst (confirmPurchase uid ref g db) = fst (handleSuccessfulPayment ref db)"
    by (auto simp: confirmPurchase_def Let_def split: option.splits prod.splits Outcome.splits)
  then show ?thesis
    using assms nonNegative_handleSuccessfulPayment[OF assms] by auto
qed

lemma nonNegative_webhook:
  "nonNegative db \<Longrightarrow> nonNegative (handleStripeWebhook ev db)"
  by (cases ev)
    (simp_all add: handleStripeWebhook_def nonNegative_handleSuccessfulPayment
       nonNegative_setPurchaseStatus)

lemma nonNegative_admin_points:
  "nonNegative db \<Longrightarrow> nonNegative (fst (admin_updateUserPoints uid points operation db))"
  by (auto simp: nonNegative_iff admin_updateUserPoints_def Let_def split: option.splits if_splits)

lemma nonNegative_user_points:
  "nonNegative db \<Longrightarrow> nonNegative (fst (updateUserPoints uid points operation db))"
  by (auto simp: nonNegative_iff updateUserPoints_def Let_def split: option.splits if_splits)

lemma nonNegative_cancel:
  assumes "nonNegative db"
  shows "nonNegative (fst (cancelAppointment i uid db))"
proof (cases "i < length (appointments db)")
  case False
  then show ?thesis using assms by (simp add: cancelAppointment_def)
next
  case True
  with assms have p: "0 \<le> price (appointments db ! i)"
    by (simp add: nonNegative_iff)
  have upd: "\<forall>a \<in> set ((appointments db)[i := (appointments db ! i)\<lparr>status := cancelled\<rparr>]). 0 \<le> price a"
    using assms p by (intro set_update_price) (simp_all add: nonNegative_iff)
  show ?thesis
    using assms p upd
    by (auto simp: nonNegative_iff cancelAppointment_def Let_def saveAppointment_def
          incUserPoints_def split: option.splits if_splits)
qed

lemma nonNegative_admin_cancel:
  assumes "nonNegative db"
  shows "nonNegative (fst (admin_cancelAppointment i reason db))"
proof (cases "i < length (appointments db)")
  case False
  then show ?thesis using assms by (simp add: admin_cancelAppointment_def)
next
  case True
  with assms have p: "0 \<le> price (appointments db ! i)"
    by (simp add: nonNegative_iff)
  have inv: "\<forall>a \<in> set (appointments db). 0 \<le> price a"
    using assms by (simp add: nonNegative_iff)
  note upd = set_update_same_price[OF inv True]
  have "users (fst (admin_cancelAppointment i reason db)) = users db"
    by (rule admin_cancel_keeps_users)
  moreover have "packs (fst (admin_cancelAppointment i reason db)) = packs db"
    by (auto simp: admin_cancelAppointment_def Let_def saveAppointment_def
        split: option.splits sum.splits if_splits)
  moreover have "\<forall>a \<in> set (appointments (fst (admin_cancelAppointment i reason db))). 0 \<le> price a"
    using assms
    by (auto simp: nonNegative_iff admin_cancelAppointment_def Let_def saveAppointment_def
        split: option.splits sum.splits if_splits dest: upd)
  ultimately show ?thesis using assms by (simp add: nonNegative_def)
qed

lemma nonNegative_book:
  assumes "nonNegative db"
  shows "nonNegative (fst (bookAppointment now faults uid svc d loc nts db))"
proof (cases "\<not> isValid (validateBookingWindow now d (appointments db))
     \<or> 3 \<le> getUserAppointmentCount uid (appointments db)
     \<or> findAvailableSlot d (appointments db) = None
     \<or> users db uid = None
     \<or> (\<exists>user. users db uid = Some user \<and> totalPoints user < calculateAppointmentPrice svc d)")
  case True
  from bookAppointment_rejected[OF True] assms show ?thesis by simp
next
  case False
  then obtain slot user where ok: "isValid (validateBookingWindow now d (appointments db))"
      "getUserAppointmentCount uid (appointments db) < 3"
      "findAvailableSlot d (appointments db) = Some slot"
      "users db uid = Some user"
      "calculateAppointmentPrice svc d \<le> totalPoints user"
    by (auto simp: not_le not_less)
  have "0 \<le> price (bookedAppointment uid svc d loc nts slot)"
    by (simp add: bookedAppointment_def price_nonneg)
  then show ?thesis
    using assms ok(4,5)
    unfolding bookAppointment_passed[OF ok]
    by (auto simp: nonNegative_iff)
qed

lemma nonNegative_step: "nonNegative db \<Longrightarrow> nonNegative (step r db)"
  by (cases r)
    (simp_all add: nonNegative_book nonNegative_cancel nonNegative_admin_cancel
       nonNegative_admin_points nonNegative_user_points nonNegative_confirmPurchase
       nonNegative_webhook)

lemma nonNegative_run: "nonNegative db \<Longrightarrow> nonNegative (run reqs db)"
  by (induction reqs arbitrary: db) (simp_all add: nonNegative_step)

text \<open>
  C2 (as amended). The \<open>subtract\<close> operation of either \<open>updateUserPoints\<close> handler, when it
  would make the balance negative, answers insufficient points and changes nothing; a
  booking whose price exceeds the balance changes nothing, and answers insufficient points
  when the earlier checks pass. \<open>deductUserPoints\<close> itself decrements without a check: the
  guard is its caller's. Consequently every run of requests (bookings, cancellations,
  points updates, purchase confirmations and webhooks) from a database whose balances,
  prices and pack points are non-negative ends in such a database.
\<close>

theorem ledger_never_negative:
  "(users db uid = Some u \<and> totalPoints u - points < 0 \<longrightarrow>
      admin_updateUserPoints uid points ''subtract'' db =
        (db, InsufficientPoints points (totalPoints u)))
   \<and> (users db uid = Some u \<and> 1 \<le> points \<and> totalPoints u - points < 0 \<longrightarrow>
      updateUserPoints uid points ''subtract'' db =
        (db, InsufficientPoints points (totalPoints u)))
   \<and> (users db uid = Some u \<and> totalPoints u < calculateAppointmentPrice svc d \<longrightarrow>
      fst (bookAppointment now faults uid svc d loc nts db) = db \<and>
      (isValid (validateBookingWindow now d (appointments db)) \<and>
       getUserAppointmentCount uid (appointments db) < 3 \<and>
       findAvailableSlot d (appointments db) \<noteq> None \<longrightarrow>
         snd (bookAppointment now faults uid svc d loc nts db) =
           InsufficientPoints (calculateAppointmentPrice svc d) (totalPoints u)))
   \<and> (nonNegative db \<longrightarrow> nonNegative (run reqs db))"
proof -
  have a: "users db uid = Some u \<Longrightarrow> totalPoints u - points < 0 \<Longrightarrow>
      admin_updateUserPoints uid points ''subtract'' db =
        (db, InsufficientPoints points (totalPoints u))"
    by (simp add: admin_updateUserPoints_def Let_def)
  have b: "users db uid = Some u \<Longrightarrow> 1 \<le> points \<Longrightarrow> totalPoints u - points < 0 \<Longrightarrow>
      updateUserPoints uid points ''subtract'' db =
        (db, InsufficientPoints points (totalPoints u))"
    by (simp add: updateUserPoints_def Let_def)
  have c: "fst (bookAppointment now faults uid svc d loc nts db) = db"
    if "users db uid = Some u" "totalPoints u < calculateAppointmentPrice svc d"
    using bookAppointment_rejected[of now d db uid svc faults loc nts] that by blast
  have c': "snd (bookAppointment now faults uid svc d loc nts db) =
           InsufficientPoints (calculateAppointmentPrice svc d) (totalPoints u)"
    if "users db uid = Some u" "totalPoints u < calculateAppointmentPrice svc d"
      "isValid (validateBookingWindow now d (appointments db))"
      "getUserAppointmentCount uid (appointments db) < 3"
      "findAvailableSlot d (appointments db) \<noteq> None"
    using that by (auto simp: bookAppointment_def Let_def split: option.splits)
  show ?thesis
    using a b c c' nonNegative_run by blast
qed

lemma sample_nonNegative: "nonNegative (sampleDb 1000 [])"
  by (simp add: nonNegative_def sampleDb_def sampleUser_def)

theorem ledger_never_negative_witness:
  "users (sampleDb 1000 []) 1 = Some (sampleUser 1000)
   \<and> totalPoints (sampleUser 1000) - 1500 < 0
   \<and> admin_updateUserPoints 1 1500 ''subtract'' (sampleDb 1000 []) =
       (sampleDb 1000 [], InsufficientPoints 1500 1000)
   \<and> updateUserPoints 1 1500 ''subtract'' (sampleDb 1000 []) =
       (sampleDb 1000 [], InsufficientPoints 1500 1000)
   \<and> totalPoints (sampleUser 1000) < calculateAppointmentPrice deluxe monday
   \<and> bookAppointment sunday noFaults 1 deluxe monday ''Main Street 1'' None (sampleDb 1000 []) =
       (sampleDb 1000 [], InsufficientPoints 1400 1000)
   \<and> nonNegative (sampleDb 1000 [])
   \<and> nonNegative (run sampleRequests (sampleDb 1000 []))"
proof -
  let ?db = "sampleDb 1000 []"
  have u: "users ?db 1 = Some (sampleUser 1000)" by (simp add: sampleDb_def)
  have low: "totalPoints (sampleUser 1000) - 1500 < 0" "(1::int) \<le> 1500"
    by (simp_all add: sampleUser_def)
  have tp: "totalPoints (sampleUser 1000) = 1000" by (simp add: sampleUser_def)
  have pr: "calculateAppointmentPrice deluxe monday = 1400"
    by (simp add: price_table sample_date_types)
  have lt: "totalPoints (sampleUser 1000) < calculateAppointmentPrice deluxe monday"
    by (simp add: pr tp)
  have w: "isValid (validateBookingWindow sunday monday (appointments ?db))"
    "getUserAppointmentCount 1 (appointments ?db) < 3"
    "findAvailableSlot monday (appointments ?db) \<noteq> None"
    by (simp_all add: sunday_monday_window getUserAppointmentCount_def sampleDb_def monday_empty_slot)
  note t1 = ledger_never_negative[of ?db 1 "sampleUser 1000" 1500 deluxe monday sunday noFaults
      "''Main Street 1''" None sampleRequests]
  from t1 u low have 1: "admin_updateUserPoints 1 1500 ''subtract'' ?db =
       (?db, InsufficientPoints 1500 (totalPoints (sampleUser 1000)))"
    and 2: "updateUserPoints 1 1500 ''subtract'' ?db =
       (?db, InsufficientPoints 1500 (totalPoints (sampleUser 1000)))"
    by blast+
  from t1 u lt w have 3: "fst (bookAppointment sunday noFaults 1 deluxe monday ''Main Street 1'' None ?db) = ?db"
    and 4: "snd (bookAppointment sunday noFaults 1 deluxe monday ''Main Street 1'' None ?db) =
       InsufficientPoints (calculateAppointmentPrice deluxe monday) (totalPoints (sampleUser 1000))"
    by blast+
  have 5: "bookAppointment sunday noFaults 1 deluxe monday ''Main Street 1'' None ?db =
       (?db, InsufficientPoints 1400 1000)"
    using 3 4 unfolding pr tp by (simp add: prod_eq_iff)
  from t1 sample_nonNegative have 6: "nonNegative (run sampleRequests ?db)" by blast
  show ?thesis
    using u low(1) 1 2 lt 5 sample_nonNegative 6 unfolding tp by blast
qed

text \<open>
  C2 as stated fails: \<open>deductUserPoints\<close> on a balance of 1000 with 1500 points succeeds
  and leaves the balance at -500.
\<close>

theorem deductUserPoints_unchecked_counterexample:
  "deductUserPoints noFaults 1 1500 (sampleDb 1000 []) = Inr (sampleDb (- 500) [])"
  by (simp add: deductUserPoints_def noFaults_def incUserPoints_def sampleDb_def sampleUser_def)

subsection \<open>Purchase reconciliation, both entry points\<close>

lemma handleSuccessfulPayment_writes_credit:
  assumes found: "findIndex (\<lambda>p. stripePaymentIntentId p = ref) (purchases db) = Some i"
    and st: "p_status (purchases db ! i) \<noteq> p_succeeded"
    and pk: "packs db (p_packId (purchases db ! i)) = Some pk"
    and u: "users db (p_userId (purchases db ! i)) = Some u"
  shows "handleSuccessfulPayment_writes ref db =
    ([db\<lparr>purchases := (purchases db)[i := (purchases db ! i)\<lparr>p_status := p_processing\<rparr>]\<rparr>,
      db\<lparr>users := (users db)(p_userId (purchases db ! i) \<mapsto>
            u\<lparr>totalPoints := totalPoints u + (pointsIncluded pk + bonusPoints pk)\<rparr>),
         purchases := (purchases db)[i := (purchases db ! i)\<lparr>p_status := p_processing\<rparr>]\<rparr>,
      db\<lparr>users := (users db)(p_userId (purchases db ! i) \<mapsto>
            u\<lparr>totalPoints := totalPoints u + (pointsIncluded pk + bonusPoints pk)\<rparr>),
         purchases := (purchases db)[i := (purchases db ! i)\<lparr>p_status := p_succeeded,
            pointsAwarded := pointsIncluded pk, bonusPointsAwarded := bonusPoints pk\<rparr>]\<rparr>],
     Returned (Some \<lparr>res_purchase = (purchases db ! i)\<lparr>p_status := p_succeeded,
            pointsAwarded := pointsIncluded pk, bonusPointsAwarded := bonusPoints pk\<rparr>,
        res_pointsAwarded = pointsIncluded pk + bonusPoints pk, alreadyProcessed = False\<rparr>))"
  using assms
  by (simp add: handleSuccessfulPayment_writes_def incUserPoints_def Let_def)

lemma handleSuccessfulPayment_credit:
  assumes found: "findIndex (\<lambda>p. stripePaymentIntentId p = ref) (purchases db) = Some i"
    and st: "p_status (purchases db ! i) \<noteq> p_succeeded"
    and pk: "packs db (p_packId (purchases db ! i)) = Some pk"
    and u: "users db (p_userId (purchases db ! i)) = Some u"
  shows "handleSuccessfulPayment ref db =
    (db\<lparr>users := (users db)(p_userId (purchases db ! i) \<mapsto>
            u\<lparr>totalPoints := totalPoints u + (pointsIncluded pk + bonusPoints pk)\<rparr>),
        purchases := (purchases db)[i := (purchases db ! i)\<lparr>p_status := p_succeeded,
            pointsAwarded := pointsIncluded pk, bonusPointsAwarded := bonusPoints pk\<rparr>]\<rparr>,
     Returned (Some \<lparr>res_purchase = (purchases db ! i)\<lparr>p_status := p_succeeded,
            pointsAwarded := pointsIncluded pk, bonusPointsAwarded := bonusPoints pk\<rparr>,
        res_pointsAwarded = pointsIncluded pk + bonusPoints pk, alreadyProcessed = False\<rparr>))"
  by (simp add: handleSuccessfulPayment_def handleSuccessfulPayment_writes_credit[OF assms])









text \<open>
  C4 (as amended). On the client-confirm path, for a purchase of the requesting user
  (references unique): a purchase in processing state is reported as in progress and
  nothing changes; a purchase that is neither succeeded nor processing has the payment
  processor queried first, and unless the answer is succeeded the database is unchanged
  (the purchase is not marked processing) and an error is answered; when the answer is
  succeeded, \<open>handleSuccessfulPayment\<close> makes three writes in this order: the purchase
  marked processing, the user credited \<open>pointsIncluded + bonusPoints\<close>, the purchase marked
  succeeded with the awards recorded. On the webhook path a verified
  \<open>payment_intent.succeeded\<close> event runs the same \<open>handleSuccessfulPayment\<close> on such a
  purchase, with the same result, without a query to the processor.
\<close>

theorem confirm_queries_before_claiming:
  assumes found: "findIndex (\<lambda>p. stripePaymentIntentId p = ref \<and> p_userId p = uid) (purchases db) = Some i"
    and uniq: "distinct (map stripePaymentIntentId (purchases db))"
  shows
   "(p_status (purchases db ! i) = p_processing \<longrightarrow>
       confirmPurchase uid ref getPaymentIntent db =
         (db, Accepted ''Purchase is being processed, please wait''))
    \<and> (p_status (purchases db ! i) \<notin> {p_succeeded, p_processing} \<and>
        getPaymentIntent ref \<noteq> Some intent_succeeded \<longrightarrow>
       fst (confirmPurchase uid ref getPaymentIntent db) = db \<and>
       (\<exists>m. snd (confirmPurchase uid ref getPaymentIntent db) = BadRequest m \<or>
            snd (confirmPurchase uid ref getPaymentIntent db) = ServerError m))
    \<and> (p_status (purchases db ! i) \<notin> {p_succeeded, p_processing} \<and>
        packs db (p_packId (purchases db ! i)) = Some pk \<and> users db uid = Some u \<longrightarrow>
       (getPaymentIntent ref = Some intent_succeeded \<longrightarrow>
          confirmPurchase uid ref getPaymentIntent db =
            (db\<lparr>users := (users db)(uid \<mapsto>
                   u\<lparr>totalPoints := totalPoints u + (pointsIncluded pk + bonusPoints pk)\<rparr>),
                purchases := (purchases db)[i := (purchases db ! i)\<lparr>p_status := p_succeeded,
                   pointsAwarded := pointsIncluded pk, bonusPointsAwarded := bonusPoints pk\<rparr>]\<rparr>,
             PurchaseCompleted False (pointsIncluded pk + bonusPoints pk))) \<and>
       handleStripeWebhook (payment_intent_succeeded ref) db =
         db\<lparr>users := (users db)(uid \<mapsto>
                u\<lparr>totalPoints := totalPoints u + (pointsIncluded pk + bonusPoints pk)\<rparr>),
            purchases := (purchases db)[i := (purchases db ! i)\<lparr>p_status := p_succeeded,
                pointsAwarded := pointsIncluded pk, bonusPointsAwarded := bonusPoints pk\<rparr>]\<rparr> \<and>
       fst (handleSuccessfulPayment_writes ref db) =
         [db\<lparr>purchases := (purchases db)[i := (purchases db ! i)\<lparr>p_status := p_processing\<rparr>]\<rparr>,
          db\<lparr>users := (users db)(uid \<mapsto>
                u\<lparr>totalPoints := totalPoints u + (pointsIncluded pk + bonusPoints pk)\<rparr>),
             purchases := (purchases db)[i := (purchases db ! i)\<lparr>p_status := p_processing\<rparr>]\<rparr>,
          db\<lparr>users := (users db)(uid \<mapsto>
                u\<lparr>totalPoints := totalPoints u + (pointsIncluded pk + bonusPoints pk)\<rparr>),
             purchases := (purchases db)[i := (purchases db ! i)\<lparr>p_status := p_succeeded,
                pointsAwarded := pointsIncluded pk, bonusPointsAwarded := bonusPoints pk\<rparr>]\<rparr>])"
proof -
  from findIndex_Some[OF found] have own: "p_userId (purchases db ! i) = uid" by simp
  have byref: "findIndex (\<lambda>p. stripePaymentIntentId p = ref) (purchases db) = Some i"
    by (rule findIndex_distinct_key[OF found uniq])
  have a: "p_status (purchases db ! i) = p_processing \<Longrightarrow>
       confirmPurchase uid ref getPaymentIntent db =
         (db, Accepted ''Purchase is being processed, please wait'')"
    by (simp add: confirmPurchase_def found Let_def)
  have b: "p_status (purchases db ! i) \<notin> {p_succeeded, p_processing} \<Longrightarrow>
        getPaymentIntent ref \<noteq> Some intent_succeeded \<Longrightarrow>
       fst (confirmPurchase uid ref getPaymentIntent db) = db \<and>
       (\<exists>m. snd (confirmPurchase uid ref getPaymentIntent db) = BadRequest m \<or>
            snd (confirmPurchase uid ref getPaymentIntent db) = ServerError m)"
    by (auto simp: confirmPurchase_def found Let_def split: option.splits)
  have c: "confirmPurchase uid ref getPaymentIntent db =
            (db\<lparr>users := (users db)(uid \<mapsto>
                   u\<lparr>totalPoints := totalPoints u + (pointsIncluded pk + bonusPoints pk)\<rparr>),
                purchases := (purchases db)[i := (purchases db ! i)\<lparr>p_status := p_succeeded,
                   pointsAwarded := pointsIncluded pk, bonusPointsAwarded := bonusPoints pk\<rparr>]\<rparr>,
             PurchaseCompleted False (pointsIncluded pk + bonusPoints pk))"
    if "p_status (purchases db ! i) \<notin> {p_succeeded, p_processing}"
      "packs db (p_packId (purchases db ! i)) = Some pk" "users db uid = Some u"
      "getPaymentIntent ref = Some intent_succeeded"
  proof -
    have "handleSuccessfulPayment ref db = (db\<lparr>users := (users db)(uid \<mapsto>
                   u\<lparr>totalPoints := totalPoints u + (pointsIncluded pk + bonusPoints pk)\<rparr>),
                purchases := (purchases db)[i := (purchases db ! i)\<lparr>p_status := p_succeeded,
                   pointsAwarded := pointsIncluded pk, bonusPointsAwarded := bonusPoints pk\<rparr>]\<rparr>,
        Returned (Some \<lparr>res_purchase = (purchases db ! i)\<lparr>p_status := p_succeeded,
            pointsAwarded := pointsIncluded pk, bonusPointsAwarded := bonusPoints pk\<rparr>,
        res_pointsAwarded = pointsIncluded pk + bonusPoints pk, alreadyProcessed = False\<rparr>))"
      using handleSuccessfulPayment_credit[OF byref, of pk u] that own by simp
    then show ?thesis
      using that by (simp add: confirmPurchase_def found Let_def)
  qed
  have d: "handleStripeWebhook (payment_intent_succeeded ref) db =
         db\<lparr>users := (users db)(uid \<mapsto>
                u\<lparr>totalPoints := totalPoints u + (pointsIncluded pk + bonusPoints pk)\<rparr>),
            purchases := (purchases db)[i := (purchases db ! i)\<lparr>p_status := p_succeeded,
                pointsAwarded := pointsIncluded pk, bonusPointsAwarded := bonusPoints pk\<rparr>]\<rparr>"
    if "p_status (purchases db ! i) \<notin> {p_succeeded, p_processing}"
      "packs db (p_packId (purchases db ! i)) = Some pk" "users db uid = Some u"
    using handleSuccessfulPayment_credit[OF byref, of pk u] that own
    by (simp add: handleStripeWebhook_def)
  have e: "fst (handleSuccessfulPayment_writes ref db) =
         [db\<lparr>purchases := (purchases db)[i := (purchases db ! i)\<lparr>p_status := p_processing\<rparr>]\<rparr>,
          db\<lparr>users := (users db)(uid \<mapsto>
                u\<lparr>totalPoints := totalPoints u + (pointsIncluded pk + bonusPoints pk)\<rparr>),
             purchases := (purchases db)[i := (purchases db ! i)\<lparr>p_status := p_processing\<rparr>]\<rparr>,
          db\<lparr>users := (users db)(uid \<mapsto>
                u\<lparr>totalPoints := totalPoints u + (pointsIncluded pk + bonusPoints pk)\<rparr>),
             purchases := (purchases db)[i := (purchases db ! i)\<lparr>p_status := p_succeeded,
                pointsAwarded := pointsIncluded pk, bonusPointsAwarded := bonusPoints pk\<rparr>]\<rparr>]"
    if "p_status (purchases db ! i) \<notin> {p_succeeded, p_processing}"
      "packs db (p_packId (purchases db ! i)) = Some pk" "users db uid = Some u"
    using handleSuccessfulPayment_writes_credit[OF byref, of pk u] that own by simp
  show ?thesis
    using a b c d e by blast
qed

lemma sample_found:
  "findIndex (\<lambda>p. stripePaymentIntentId p = ''pi_1'' \<and> p_userId p = 1)
     (purchases (shopDb 100 [samplePurchase st 0 0])) = Some 0"
  by (simp add: shopDb_def samplePurchase_def)

text \<open>
  C4 as stated fails: a pending purchase whose intent still requires a payment method is
  queried without ever being marked processing; it is pending afterwards.
\<close>

theorem confirm_not_claimed_counterexample:
  "confirmPurchase 1 ''pi_1'' [''pi_1'' \<mapsto> requires_payment_method]
      (shopDb 100 [samplePurchase p_pending 0 0]) =
    (shopDb 100 [samplePurchase p_pending 0 0],
     BadRequest ''Payment requires a new payment method'')
   \<and> p_status (purchases (shopDb 100 [samplePurchase p_pending 0 0]) ! 0) = p_pending"
  by (simp add: confirmPurchase_def shopDb_def samplePurchase_def)

theorem confirm_queries_before_claiming_witness:
  "findIndex (\<lambda>p. stripePaymentIntentId p = ''pi_1'' \<and> p_userId p = 1)
     (purchases (shopDb 100 [samplePurchase p_pending 0 0])) = Some 0
   \<and> distinct (map stripePaymentIntentId (purchases (shopDb 100 [samplePurchase p_pending 0 0])))
   \<and> confirmPurchase 1 ''pi_1'' [''pi_1'' \<mapsto> intent_succeeded]
        (shopDb 100 [samplePurchase p_pending 0 0]) =
      (shopDb 3400 [samplePurchase p_succeeded 2800 500], PurchaseCompleted False 3300)
   \<and> handleStripeWebhook (payment_intent_succeeded ''pi_1'')
        (shopDb 100 [samplePurchase p_pending 0 0]) =
      shopDb 3400 [samplePurchase p_succeeded 2800 500]
   \<and> fst (confirmPurchase 1 ''pi_1'' [''pi_1'' \<mapsto> intent_canceled]
        (shopDb 100 [samplePurchase p_pending 0 0])) = shopDb 100 [samplePurchase p_pending 0 0]
   \<and> confirmPurchase 1 ''pi_1'' [''pi_1'' \<mapsto> intent_succeeded]
        (shopDb 100 [samplePurchase p_processing 0 0]) =
      (shopDb 100 [samplePurchase p_processing 0 0],
       Accepted ''Purchase is being processed, please wait'')
   \<and> fst (handleSuccessfulPayment_writes ''pi_1'' (shopDb 100 [samplePurchase p_pending 0 0])) =
      [shopDb 100 [samplePurchase p_processing 0 0],
       shopDb 3400 [samplePurchase p_processing 0 0],
       shopDb 3400 [samplePurchase p_succeeded 2800 500]]"
proof -
  let ?db = "shopDb 100 [samplePurchase p_pending 0 0]"
  have f: "findIndex (\<lambda>p. stripePaymentIntentId p = ''pi_1'' \<and> p_userId p = 1) (purchases ?db) = Some 0"
    by (rule sample_found)
  have dist: "\<And>st. distinct (map stripePaymentIntentId (purchases (shopDb 100 [samplePurchase st 0 0])))"
    by (simp add: shopDb_def)
  have st: "p_status (purchases ?db ! 0) \<notin> {p_succeeded, p_processing}"
    "packs ?db (p_packId (purchases ?db ! 0)) = Some samplePack" "users ?db 1 = Some (sampleUser 100)"
    by (simp_all add: shopDb_def samplePurchase_def)
  have settled: "?db\<lparr>users := (users ?db)(1 \<mapsto> (sampleUser 100)\<lparr>totalPoints :=
         totalPoints (sampleUser 100) + (pointsIncluded samplePack + bonusPoints samplePack)\<rparr>),
       purchases := (purchases ?db)[0 := (purchases ?db ! 0)\<lparr>p_status := p_succeeded,
         pointsAwarded := pointsIncluded samplePack, bonusPointsAwarded := bonusPoints samplePack\<rparr>]\<rparr>
       = shopDb 3400 [samplePurchase p_succeeded 2800 500]"
    by (simp add: shopDb_def samplePurchase_def samplePack_def sampleUser_def)
  have total: "pointsIncluded samplePack + bonusPoints samplePack = 3300"
    by (simp add: samplePack_def)
  let ?big = "?db\<lparr>users := (users ?db)(1 \<mapsto> (sampleUser 100)\<lparr>totalPoints :=
         totalPoints (sampleUser 100) + (pointsIncluded samplePack + bonusPoints samplePack)\<rparr>),
       purchases := (purchases ?db)[0 := (purchases ?db ! 0)\<lparr>p_status := p_succeeded,
         pointsAwarded := pointsIncluded samplePack, bonusPointsAwarded := bonusPoints samplePack\<rparr>]\<rparr>"
  have g1: "[''pi_1'' \<mapsto> intent_succeeded] ''pi_1'' = Some intent_succeeded"
    and g2: "[''pi_1'' \<mapsto> intent_canceled] ''pi_1'' \<noteq> Some intent_succeeded"
    by simp_all
  note t1 = confirm_queries_before_claiming[OF f dist, of "[''pi_1'' \<mapsto> intent_succeeded]" samplePack "sampleUser 100"]
  note t2 = confirm_queries_before_claiming[OF f dist, of "[''pi_1'' \<mapsto> intent_canceled]" samplePack "sampleUser 100"]
  note t3 = confirm_queries_before_claiming[OF sample_found[of p_processing] dist, of "[''pi_1'' \<mapsto> intent_succeeded]" samplePack "sampleUser 100"]
  from t1 st g1 have e1: "confirmPurchase 1 ''pi_1'' [''pi_1'' \<mapsto> intent_succeeded] ?db =
      (?big, PurchaseCompleted False (pointsIncluded samplePack + bonusPoints samplePack))"
    and e2: "handleStripeWebhook (payment_intent_succeeded ''pi_1'') ?db = ?big"
    by blast+
  have 1: "confirmPurchase 1 ''pi_1'' [''pi_1'' \<mapsto> intent_succeeded] ?db =
      (shopDb 3400 [samplePurchase p_succeeded 2800 500], PurchaseCompleted False 3300)"
    unfolding e1 settled by (simp only: total)
  have 2: "handleStripeWebhook (payment_intent_succeeded ''pi_1'') ?db =
      shopDb 3400 [samplePurchase p_succeeded 2800 500]"
    by (simp only: e2 settled)
  from t1 st have e3: "fst (handleSuccessfulPayment_writes ''pi_1'' ?db) =
      [?db\<lparr>purchases := (purchases ?db)[0 := (purchases ?db ! 0)\<lparr>p_status := p_processing\<rparr>]\<rparr>,
       ?db\<lparr>users := (users ?db)(1 \<mapsto> (sampleUser 100)\<lparr>totalPoints :=
              totalPoints (sampleUser 100) + (pointsIncluded samplePack + bonusPoints samplePack)\<rparr>),
           purchases := (purchases ?db)[0 := (purchases ?db ! 0)\<lparr>p_status := p_processing\<rparr>]\<rparr>,
       ?big]"
    by blast
  have 5: "fst (handleSuccessfulPayment_writes ''pi_1'' ?db) =
      [shopDb 100 [samplePurchase p_processing 0 0],
       shopDb 3400 [samplePurchase p_processing 0 0],
       shopDb 3400 [samplePurchase p_succeeded 2800 500]]"
    unfolding e3 settled
    by (simp add: shopDb_def samplePurchase_def samplePack_def sampleUser_def)
  from t2 st g2 have 3: "fst (confirmPurchase 1 ''pi_1'' [''pi_1'' \<mapsto> intent_canceled] ?db) = ?db"
    by blast
  have "p_status (purchases (shopDb 100 [samplePurchase p_processing 0 0]) ! 0) = p_processing"
    by (simp add: shopDb_def samplePurchase_def)
  with t3 have 4: "confirmPurchase 1 ''pi_1'' [''pi_1'' \<mapsto> intent_succeeded]
        (shopDb 100 [samplePurchase p_processing 0 0]) =
      (shopDb 100 [samplePurchase p_processing 0 0],
       Accepted ''Purchase is being processed, please wait'')"
    by blast
  show ?thesis using f dist 1 2 3 4 5 by blast
qed

subsection \<open>Booking window\<close>

lemma feb_dates:
  "setHours 0 0 0 0 feb1 = feb1"
  "setHours 0 0 0 0 monday = monday"
  "addMonths feb1 3 = feb1 + 89 * msPerDay"
  "monday \<le> addMonths feb1 6"
  "\<not> monday < feb1"
  "\<not> monday \<le> feb1 + 89 * msPerDay"
  by code_simp+

lemma feb_total_days: "Math_ceil_div (89 * msPerDay) msPerDay = 89"
  by (simp add: Math_ceil_div_def msPerDay_def)

lemma feb_keys_distinct: "distinct (map (dayKey feb1) bookedOffsets)"
  by code_simp

lemma bookedOffsets_iff: "k \<in> set bookedOffsets \<longleftrightarrow> k < 90 \<and> k \<noteq> 42"
  unfolding bookedOffsets_def set_append set_upt by auto

lemma length_bookedOffsets: "length bookedOffsets = 89"
  by (simp add: bookedOffsets_def)

lemma count_list_replicate: "count_list (replicate n x) y = (if x = y then n else 0)"
  by (induction n) auto

lemma count_concat_replicate:
  "count_list (concat (map (replicate n) ks)) k = n * count_list ks k"
  by (induction ks) (auto simp: count_list_replicate)

lemma set_concat_replicate: "0 < n \<Longrightarrow> set (concat (map (replicate n) ks)) = set ks"
  by (induction ks) auto

lemma distinct_count_one: "distinct ks \<Longrightarrow> k \<in> set ks \<Longrightarrow> count_list ks k = 1"
  by (induction ks) auto

lemma fully_booked_count:
  assumes "distinct ks"
  shows "length (filter (\<lambda>k. 4 \<le> count_list (concat (map (replicate 4) ks)) k)
            (remdups (concat (map (replicate 4) ks)))) = length ks"
proof -
  let ?keys = "concat (map (replicate 4) ks)"
  have s: "set ?keys = set ks" by (simp add: set_concat_replicate)
  have "\<forall>k \<in> set (remdups ?keys). 4 \<le> count_list ?keys k"
    using assms by (simp add: s count_concat_replicate distinct_count_one)
  then have "filter (\<lambda>k. 4 \<le> count_list ?keys k) (remdups ?keys) = remdups ?keys"
    by (rule filter_True)
  then show ?thesis
    using assms by (simp add: length_remdups_card_conv s distinct_card)
qed

lemma keys_of_fullDay:
  "map (\<lambda>a. isoDateString (appointmentDate a)) (fullDay d) = replicate 4 (isoDateString d)"
  by (simp add: fullDay_def getTimeSlots_def numeral_eq_Suc)

lemma keys_of_fullDays:
  "map (\<lambda>a. isoDateString (appointmentDate a)) (fullDays s ks) =
     concat (map (replicate 4) (map (dayKey s) ks))"
  by (simp add: fullDays_def map_concat keys_of_fullDay dayKey_def comp_def)

lemma in_fullDays:
  "a \<in> set (fullDays s ks) \<Longrightarrow>
     \<exists>k \<in> set ks. appointmentDate a = s + int k * msPerDay \<and> status a = confirmed"
  by (auto simp: fullDays_def fullDay_def)

lemma feb_all_matched:
  "filter (\<lambda>a. feb1 \<le> appointmentDate a \<and> appointmentDate a \<le> feb1 + 89 * msPerDay \<and>
               status a \<in> set activeStatuses) allButMarch15 = allButMarch15"
proof (rule filter_True, rule ballI)
  fix a assume "a \<in> set allButMarch15"
  from in_fullDays[OF this[unfolded allButMarch15_def]] obtain k where k: "k < 90"
    "appointmentDate a = feb1 + int k * msPerDay" "status a = confirmed"
    by (auto simp: bookedOffsets_iff)
  then show "feb1 \<le> appointmentDate a \<and> appointmentDate a \<le> feb1 + 89 * msPerDay \<and>
       status a \<in> set activeStatuses"
    by (simp add: msPerDay_def activeStatuses_def)
qed

lemma feb_fully_booked:
  "length (getFullyBookedDatesInRange feb1 (feb1 + 89 * msPerDay) allButMarch15) = 89"
  unfolding getFullyBookedDatesInRange_def Let_def feb_all_matched
  unfolding allButMarch15_def keys_of_fullDays
  using fully_booked_count[OF feb_keys_distinct] by (simp add: length_bookedOffsets)

lemma march15_free: "occupiedSlots march15 allButMarch15 = {}"
proof -
  have "Day (appointmentDate a) \<noteq> Day march15" if "a \<in> set allButMarch15" for a
  proof -
    from in_fullDays[OF that[unfolded allButMarch15_def]] obtain k where
      "k \<noteq> 42" "appointmentDate a = feb1 + int k * msPerDay"
      by (auto simp: bookedOffsets_iff)
    then show ?thesis by (simp add: Day_def msPerDay_def feb1_def march15_def)
  qed
  then show ?thesis by (auto simp: occupiedSlots_def)
qed

lemma march15_in_window: "feb1 \<le> march15" "march15 \<le> addMonths feb1 3"
  by code_simp+

text \<open>
  C7. Today is 2025-02-01, so today + 3 months is 2025-05-01 and the window holds 90
  dates. Every date of the window except 2025-03-15 has four active appointments; on
  2025-03-15 all four slots are free. A request for 2025-06-02, beyond the three months,
  is accepted: 89 fully booked dates reach \<open>totalDaysInRange\<close>, which is the number of
  days between the two ends (89), one less than the number of dates the query covers.
  With no appointments at all the same request is rejected with the three-month message.
\<close>

theorem window_extends_with_a_free_day:
  "validateBookingWindow feb1 monday allButMarch15 = \<lparr>isValid = True, message = None\<rparr>
   \<and> length (getFullyBookedDatesInRange feb1 (addMonths feb1 3) allButMarch15) = 89
   \<and> feb1 \<le> march15 \<and> march15 \<le> addMonths feb1 3
   \<and> occupiedSlots march15 allButMarch15 = {}
   \<and> findAvailableSlot march15 allButMarch15 \<noteq> None
   \<and> validateBookingWindow feb1 monday [] =
     \<lparr>isValid = False, message = Some ''Please choose a date within the next 3 months''\<rparr>"
proof -
  have 1: "validateBookingWindow feb1 monday allButMarch15 = \<lparr>isValid = True, message = None\<rparr>"
    by (simp add: validateBookingWindow_def Let_def feb_dates feb_total_days feb_fully_booked)
  have 2: "findAvailableSlot march15 allButMarch15 \<noteq> None"
    by (simp add: findAvailableSlot_cases march15_free Let_def)
  have 3: "validateBookingWindow feb1 monday [] =
     \<lparr>isValid = False, message = Some ''Please choose a date within the next 3 months''\<rparr>"
    by (simp add: validateBookingWindow_def Let_def feb_dates feb_total_days
          getFullyBookedDatesInRange_def)
  have 4: "length (getFullyBookedDatesInRange feb1 (addMonths feb1 3) allButMarch15) = 89"
    by (simp add: feb_dates feb_fully_booked)
  show ?thesis using 1 2 3 4 march15_free march15_in_window(1,2) by simp
qed

end
